theory Spec2Isabelle
  imports
    Main
    "HOL-Library.Multiset"
    "HOL-Library.Char_ord"
    "HOL-Library.List_Lexorder"
    "HOL-Library.Product_Lexorder"
begin

section \<open>Kafka cluster structures of the Yandex Terraform provider\<close>

text \<open>
  A shallow embedding of \<^verbatim>\<open>yandex/mdb_kafka_structures.go\<close>: the enumeration parsers,
  the scalar extractors of the Kafka and topic configuration, the version dispatch of
  \<^verbatim>\<open>expandKafkaConfigSpec\<close>, permission expansion and sorting, the user diff, the
  maintenance window and the disk autoscaling mappers.

  Go strings are byte strings and are modelled as \<^typ>\<open>string\<close>; Go's \<^verbatim>\<open><\<close> on
  strings is the bytewise lexicographic order, which is the order of
  \<^theory_text>\<open>List_Lexorder\<close> over \<^theory_text>\<open>Char_ord\<close>. Go's \<^verbatim>\<open>int\<close> and
  \<^verbatim>\<open>int64\<close> are both 64 bits wide on the platforms the provider is built for, so the
  conversions between them are identities; they are modelled as \<^typ>\<open>int\<close>, and the
  64-bit range is written out where the code checks it (\<^verbatim>\<open>strconv.ParseInt\<close>).
\<close>

subsection \<open>Errors\<close>

text \<open>
  \<^verbatim>\<open>EnumValueError field value\<close> stands for the error
  \<^verbatim>\<open>value for '<field>' must be one of <keys>, not `<value>`\<close> of the enumeration parsers
  (the key listing is produced by helpers outside this file and is not part of the value);
  \<^verbatim>\<open>NumErrorSyntax\<close> and \<^verbatim>\<open>NumErrorRange\<close> are the two \<^verbatim>\<open>strconv.NumError\<close>s of
  \<^verbatim>\<open>ParseInt\<close>, carrying the offending input; \<^verbatim>\<open>Errorf msg\<close> is \<^verbatim>\<open>fmt.Errorf(msg)\<close>
  with a fixed message.
\<close>

datatype error =
    EnumValueError string string
  | NumErrorSyntax string
  | NumErrorRange string
  | Errorf string

subsection \<open>\<^verbatim>\<open>strconv\<close>\<close>

definition is_digit :: "char \<Rightarrow> bool" where
  "is_digit c = (48 \<le> (of_char c :: int) \<and> (of_char c :: int) \<le> 57)"

definition digit_val :: "char \<Rightarrow> int" where
  "digit_val c = (of_char c :: int) - 48"

text \<open>
  The digit loop of \<^verbatim>\<open>strconv.ParseUint(s, 10, 64)\<close>: a byte that is not a decimal digit
  is a syntax error; an accumulator at or above the cutoff \<open>2^64 div 10 + 1\<close>, or a sum
  beyond \<open>2^64 - 1\<close>, is a range error. The errors are reported in the order the loop
  meets them.
\<close>

datatype num_err = ErrSyntax | ErrRange

fun parse_uint_loop :: "int \<Rightarrow> string \<Rightarrow> num_err + int" where
  "parse_uint_loop n [] = Inr n"
| "parse_uint_loop n (c # cs) =
     (if \<not> is_digit c then Inl ErrSyntax
      else if n \<ge> 2 ^ 64 div 10 + 1 then Inl ErrRange
      else (let n1 = n * 10 + digit_val c in
            if n1 > 2 ^ 64 - 1 then Inl ErrRange else parse_uint_loop n1 cs))"

definition ParseUint :: "string \<Rightarrow> num_err + int" where
  "ParseUint s = (if s = [] then Inl ErrSyntax else parse_uint_loop 0 s)"

text \<open>
  \<^verbatim>\<open>strconv.ParseInt(s, 10, 64)\<close>: an empty string is a syntax error; one leading sign is
  stripped; a syntax error of the unsigned parse is returned as it is; a magnitude outside
  the signed 64-bit range (also one the unsigned parse found out of range) is a range
  error.
\<close>

definition ParseInt :: "string \<Rightarrow> error + int" where
  "ParseInt s =
     (if s = [] then Inl (NumErrorSyntax s)
      else
        (let neg = (hd s = CHR ''-'');
             s' = (if hd s = CHR ''+'' \<or> hd s = CHR ''-'' then tl s else s)
         in case ParseUint s' of
              Inl ErrSyntax \<Rightarrow> Inl (NumErrorSyntax s)
            | Inl ErrRange \<Rightarrow> Inl (NumErrorRange s)
            | Inr un \<Rightarrow>
                if \<not> neg \<and> un \<ge> 2 ^ 63 then Inl (NumErrorRange s)
                else if neg \<and> un > 2 ^ 63 then Inl (NumErrorRange s)
                else Inr (if neg then - un else un)))"

text \<open>\<^verbatim>\<open>strconv.FormatInt(i, 10)\<close>: the decimal digits, with a minus sign for negatives.\<close>

function format_digits :: "int \<Rightarrow> string" where
  "format_digits n =
     (if n < 10 then [char_of (48 + n)]
      else format_digits (n div 10) @ [char_of (48 + n mod 10)])"
  by pat_completeness auto
termination
  by (relation "measure nat") auto

declare format_digits.simps [simp del]

definition FormatInt :: "int \<Rightarrow> string" where
  "FormatInt i = (if i < 0 then CHR ''-'' # format_digits (- i) else format_digits i)"

subsection \<open>The configuration tree accessor\<close>

text \<open>
  \<^verbatim>\<open>schema.ResourceData\<close> is the Terraform SDK's accessor to the declarative tree. Every
  path has one schema type, so the tree is a record of typed stores; a path that is not
  set is absent from its store. \<^verbatim>\<open>GetOk\<close> returns the value (the zero value of the type
  when the path is not set) and whether the path is set to a value other than the zero
  value; \<^verbatim>\<open>Get\<close> returns the value alone; \<^verbatim>\<open>GetOkExists\<close> reports whether the path is
  set at all. A list or set of nested blocks is represented by the number of its blocks,
  a list or set of strings by the list of its elements.
\<close>

record ResourceData =
  str_attr :: "string \<rightharpoonup> string"
  int_attr :: "string \<rightharpoonup> int"
  bool_attr :: "string \<rightharpoonup> bool"
  strs_attr :: "string \<rightharpoonup> string list"
  block_attr :: "string \<rightharpoonup> nat"

definition Get_string :: "ResourceData \<Rightarrow> string \<Rightarrow> string" where
  "Get_string d k = (case str_attr d k of None \<Rightarrow> [] | Some s \<Rightarrow> s)"

definition GetOk_string :: "ResourceData \<Rightarrow> string \<Rightarrow> string \<times> bool" where
  "GetOk_string d k = (Get_string d k, Get_string d k \<noteq> [])"

definition Get_int :: "ResourceData \<Rightarrow> string \<Rightarrow> int" where
  "Get_int d k = (case int_attr d k of None \<Rightarrow> 0 | Some i \<Rightarrow> i)"

definition GetOk_int :: "ResourceData \<Rightarrow> string \<Rightarrow> int \<times> bool" where
  "GetOk_int d k = (Get_int d k, Get_int d k \<noteq> 0)"

definition Get_bool :: "ResourceData \<Rightarrow> string \<Rightarrow> bool" where
  "Get_bool d k = (case bool_attr d k of None \<Rightarrow> False | Some b \<Rightarrow> b)"

definition GetOk_bool :: "ResourceData \<Rightarrow> string \<Rightarrow> bool \<times> bool" where
  "GetOk_bool d k = (Get_bool d k, Get_bool d k)"

definition Get_strs :: "ResourceData \<Rightarrow> string \<Rightarrow> string list" where
  "Get_strs d k = (case strs_attr d k of None \<Rightarrow> [] | Some xs \<Rightarrow> xs)"

definition GetOk_strs :: "ResourceData \<Rightarrow> string \<Rightarrow> string list \<times> bool" where
  "GetOk_strs d k = (Get_strs d k, Get_strs d k \<noteq> [])"

definition GetOk_block :: "ResourceData \<Rightarrow> string \<Rightarrow> bool" where
  "GetOk_block d k = (case block_attr d k of None \<Rightarrow> False | Some n \<Rightarrow> n \<noteq> 0)"

definition GetOkExists_block :: "ResourceData \<Rightarrow> string \<Rightarrow> bool" where
  "GetOkExists_block d k = (block_attr d k \<noteq> None)"

definition empty_data :: ResourceData where
  "empty_data = \<lparr>str_attr = Map.empty, int_attr = Map.empty, bool_attr = Map.empty,
                 strs_attr = Map.empty, block_attr = Map.empty\<rparr>"

subsection \<open>Enumeration tables\<close>

text \<open>
  The name and value tables of the enumerations live in the generated API package
  \<^verbatim>\<open>kafka\<close>, outside this file. The functions below take them as a parameter \<open>K\<close>;
  only the table of the topic cleanup policy is declared in the file itself.
\<close>

record kafka_api =
  Cluster_Environment_value :: "string \<rightharpoonup> int"
  CompressionType_value :: "string \<rightharpoonup> int"
  CompressionType_name :: "int \<rightharpoonup> string"
  SaslMechanism_value :: "string \<rightharpoonup> int"
  SaslMechanism_name :: "int \<rightharpoonup> string"
  Permission_AccessRole_value :: "string \<rightharpoonup> int"
  Permission_AccessRole_name :: "int \<rightharpoonup> string"
  WeeklyMaintenanceWindow_WeekDay_value :: "string \<rightharpoonup> int"

definition Topic_CleanupPolicy_value :: "string \<rightharpoonup> int" where
  "Topic_CleanupPolicy_value = map_of
     [(''CLEANUP_POLICY_UNSPECIFIED'', 0),
      (''CLEANUP_POLICY_DELETE'', 1),
      (''CLEANUP_POLICY_COMPACT'', 2),
      (''CLEANUP_POLICY_COMPACT_AND_DELETE'', 3)]"

text \<open>
  \<^verbatim>\<open>String()\<close> of a generated enumeration: the name of the ordinal in the name table,
  the decimal ordinal when the table has none.
\<close>

definition enum_String :: "(int \<rightharpoonup> string) \<Rightarrow> int \<Rightarrow> string" where
  "enum_String names v = (case names v of Some s \<Rightarrow> s | None \<Rightarrow> FormatInt v)"

text \<open>
  Modelled from the spec: the tables of the generated API package, which is not under
  \<^verbatim>\<open>src/\<close>. Each enumeration has a reserved zero member named \<^verbatim>\<open>..._UNSPECIFIED\<close> that
  is a valid wire value; the other members carry the names that the provider's
  documentation and example use (\<^verbatim>\<open>PRODUCTION\<close>, \<^verbatim>\<open>PRESTABLE\<close>,
  \<^verbatim>\<open>COMPRESSION_TYPE_ZSTD\<close>, \<^verbatim>\<open>ACCESS_ROLE_PRODUCER\<close>, ...); the week days are the
  seven tokens \<^verbatim>\<open>MON\<close> .. \<^verbatim>\<open>SUN\<close> with ordinals 1 .. 7. These tables are used at
  concrete inputs only; the general theorems hold for every table.
\<close>

definition kafka_tables :: kafka_api where
  "kafka_tables = \<lparr>
     Cluster_Environment_value = map_of
       [(''ENVIRONMENT_UNSPECIFIED'', 0), (''PRODUCTION'', 1), (''PRESTABLE'', 2)],
     CompressionType_value = map_of
       [(''COMPRESSION_TYPE_UNSPECIFIED'', 0), (''COMPRESSION_TYPE_UNCOMPRESSED'', 1),
        (''COMPRESSION_TYPE_ZSTD'', 2), (''COMPRESSION_TYPE_LZ4'', 3),
        (''COMPRESSION_TYPE_SNAPPY'', 4), (''COMPRESSION_TYPE_GZIP'', 5),
        (''COMPRESSION_TYPE_PRODUCER'', 6)],
     CompressionType_name = map_of
       [(0, ''COMPRESSION_TYPE_UNSPECIFIED''), (1, ''COMPRESSION_TYPE_UNCOMPRESSED''),
        (2, ''COMPRESSION_TYPE_ZSTD''), (3, ''COMPRESSION_TYPE_LZ4''),
        (4, ''COMPRESSION_TYPE_SNAPPY''), (5, ''COMPRESSION_TYPE_GZIP''),
        (6, ''COMPRESSION_TYPE_PRODUCER'')],
     SaslMechanism_value = map_of
       [(''SASL_MECHANISM_UNSPECIFIED'', 0), (''SASL_MECHANISM_SCRAM_SHA_256'', 1),
        (''SASL_MECHANISM_SCRAM_SHA_512'', 2)],
     SaslMechanism_name = map_of
       [(0, ''SASL_MECHANISM_UNSPECIFIED''), (1, ''SASL_MECHANISM_SCRAM_SHA_256''),
        (2, ''SASL_MECHANISM_SCRAM_SHA_512'')],
     Permission_AccessRole_value = map_of
       [(''ACCESS_ROLE_UNSPECIFIED'', 0), (''ACCESS_ROLE_PRODUCER'', 1),
        (''ACCESS_ROLE_CONSUMER'', 2), (''ACCESS_ROLE_ADMIN'', 3)],
     Permission_AccessRole_name = map_of
       [(0, ''ACCESS_ROLE_UNSPECIFIED''), (1, ''ACCESS_ROLE_PRODUCER''),
        (2, ''ACCESS_ROLE_CONSUMER''), (3, ''ACCESS_ROLE_ADMIN'')],
     WeeklyMaintenanceWindow_WeekDay_value = map_of
       [(''WEEK_DAY_UNSPECIFIED'', 0), (''MON'', 1), (''TUE'', 2), (''WED'', 3),
        (''THU'', 4), (''FRI'', 5), (''SAT'', 6), (''SUN'', 7)]\<rparr>"

subsection \<open>Enumeration parsers\<close>

definition parseKafkaEnv :: "kafka_api \<Rightarrow> string \<Rightarrow> error + int" where
  "parseKafkaEnv K e =
     (case Cluster_Environment_value K e of
        None \<Rightarrow> Inl (EnumValueError ''environment'' e)
      | Some v \<Rightarrow> Inr v)"

definition parseKafkaCompression :: "kafka_api \<Rightarrow> string \<Rightarrow> error + int" where
  "parseKafkaCompression K e =
     (case CompressionType_value K e of
        None \<Rightarrow> Inl (EnumValueError ''compression_type'' e)
      | Some v \<Rightarrow>
          if e = ''COMPRESSION_TYPE_UNSPECIFIED''
          then Inl (EnumValueError ''compression_type'' e)
          else Inr v)"

definition parseKafkaSaslMechanism :: "kafka_api \<Rightarrow> string \<Rightarrow> error + int" where
  "parseKafkaSaslMechanism K e =
     (case SaslMechanism_value K e of
        None \<Rightarrow> Inl (EnumValueError ''sasl_mechanism'' e)
      | Some v \<Rightarrow>
          if e = ''SASL_MECHANISM_UNSPECIFIED''
          then Inl (EnumValueError ''sasl_mechanism'' e)
          else Inr v)"

definition parseKafkaPermissionRole :: "kafka_api \<Rightarrow> string \<Rightarrow> error + int" where
  "parseKafkaPermissionRole K e =
     (case Permission_AccessRole_value K e of
        None \<Rightarrow> Inl (EnumValueError ''role'' e)
      | Some v \<Rightarrow> Inr v)"

definition parseKafkaTopicCleanupPolicy :: "string \<Rightarrow> error + int" where
  "parseKafkaTopicCleanupPolicy e =
     (case Topic_CleanupPolicy_value e of
        None \<Rightarrow> Inl (EnumValueError ''cleanup_policy'' e)
      | Some v \<Rightarrow>
          if e = ''CLEANUP_POLICY_UNSPECIFIED''
          then Inl (EnumValueError ''cleanup_policy'' e)
          else Inr v)"

subsection \<open>Scalar extractors of the Kafka server configuration\<close>

definition kafkaConfigPath :: string where
  "kafkaConfigPath = ''config.0.kafka.0.kafka_config.0''"

text \<open>
  \<^verbatim>\<open>parseIntKafkaConfigParam(d, paramName, retErr)\<close> returns the wrapper and updates
  \<^verbatim>\<open>*retErr\<close>; the model returns both. A wrapper pointer is an \<^typ>\<open>int option\<close>,
  \<^verbatim>\<open>nil\<close> being \<^term>\<open>None\<close>. On a conversion failure the source stores the error under
  the guard \<^verbatim>\<open>if *retErr != nil\<close>.
\<close>

definition parseIntKafkaConfigParam ::
  "ResourceData \<Rightarrow> string \<Rightarrow> error option \<Rightarrow> int option \<times> error option" where
  "parseIntKafkaConfigParam d paramName retErr =
     (case GetOk_string d (kafkaConfigPath @ ''.'' @ paramName) of
        (v, ok) \<Rightarrow>
          if \<not> ok then (None, retErr)
          else (case ParseInt v of
                  Inl err \<Rightarrow> (None, if retErr \<noteq> None then Some err else retErr)
                | Inr i \<Rightarrow> (Some i, retErr)))"

text \<open>
  A Go slice whose \<^verbatim>\<open>nil\<close>-ness is tested is an optional list: \<^term>\<open>None\<close> is the
  \<^verbatim>\<open>nil\<close> slice, and \<^verbatim>\<open>append\<close> to it allocates.
\<close>

definition append_slice :: "'a list option \<Rightarrow> 'a \<Rightarrow> 'a list option" where
  "append_slice r x = (case r of None \<Rightarrow> Some [x] | Some xs \<Rightarrow> Some (xs @ [x]))"

fun parseSaslEnabledMechanisms_loop ::
  "kafka_api \<Rightarrow> string list \<Rightarrow> int list option \<Rightarrow> error + int list option" where
  "parseSaslEnabledMechanisms_loop K [] result = Inr result"
| "parseSaslEnabledMechanisms_loop K (mechanismString # rest) result =
     (case parseKafkaSaslMechanism K mechanismString of
        Inl err \<Rightarrow> Inl err
      | Inr mechanismSpec \<Rightarrow>
          parseSaslEnabledMechanisms_loop K rest (append_slice result mechanismSpec))"

definition parseSaslEnabledMechanisms ::
  "kafka_api \<Rightarrow> string list \<Rightarrow> error + int list option" where
  "parseSaslEnabledMechanisms K sliceOfMechanisms =
     parseSaslEnabledMechanisms_loop K sliceOfMechanisms None"

text \<open>
  The structs \<^verbatim>\<open>KafkaConfig\<close>, \<^verbatim>\<open>kafka.KafkaConfig2_8\<close> and \<^verbatim>\<open>kafka.KafkaConfig3\<close> have
  the same twenty fields; one record stands for the three.
\<close>

record KafkaConfig =
  CompressionType :: int
  LogFlushIntervalMessages :: "int option"
  LogFlushIntervalMs :: "int option"
  LogFlushSchedulerIntervalMs :: "int option"
  LogRetentionBytes :: "int option"
  LogRetentionHours :: "int option"
  LogRetentionMinutes :: "int option"
  LogRetentionMs :: "int option"
  LogSegmentBytes :: "int option"
  LogPreallocate :: "bool option"
  SocketSendBufferBytes :: "int option"
  SocketReceiveBufferBytes :: "int option"
  AutoCreateTopicsEnable :: "bool option"
  NumPartitions :: "int option"
  DefaultReplicationFactor :: "int option"
  MessageMaxBytes :: "int option"
  ReplicaFetchMaxBytes :: "int option"
  SslCipherSuites :: "string list option"
  OffsetsRetentionMinutes :: "int option"
  SaslEnabledMechanisms :: "int list option"

definition parseKafkaConfig :: "kafka_api \<Rightarrow> ResourceData \<Rightarrow> error + KafkaConfig" where
  "parseKafkaConfig K d =
     (case (case GetOk_string d (kafkaConfigPath @ ''.compression_type'') of
              (v, ok) \<Rightarrow> if ok then parseKafkaCompression K v else Inr 0) of
        Inl err \<Rightarrow> Inl err
      | Inr compressionType \<Rightarrow>
         (let retErr0 = None;
              (logFlushIntervalMessages, retErr1) =
                 parseIntKafkaConfigParam d ''log_flush_interval_messages'' retErr0;
              (logFlushIntervalMs, retErr2) =
                 parseIntKafkaConfigParam d ''log_flush_interval_ms'' retErr1;
              (logFlushSchedulerIntervalMs, retErr3) =
                 parseIntKafkaConfigParam d ''log_flush_scheduler_interval_ms'' retErr2;
              (logRetentionBytes, retErr4) =
                 parseIntKafkaConfigParam d ''log_retention_bytes'' retErr3;
              (logRetentionHours, retErr5) =
                 parseIntKafkaConfigParam d ''log_retention_hours'' retErr4;
              (logRetentionMinutes, retErr6) =
                 parseIntKafkaConfigParam d ''log_retention_minutes'' retErr5;
              (logRetentionMs, retErr7) =
                 parseIntKafkaConfigParam d ''log_retention_ms'' retErr6;
              (logSegmentBytes, retErr8) =
                 parseIntKafkaConfigParam d ''log_segment_bytes'' retErr7;
              (socketSendBufferBytes, retErr9) =
                 parseIntKafkaConfigParam d ''socket_send_buffer_bytes'' retErr8;
              (socketReceiveBufferBytes, retErr10) =
                 parseIntKafkaConfigParam d ''socket_receive_buffer_bytes'' retErr9;
              (numPartitions, retErr11) =
                 parseIntKafkaConfigParam d ''num_partitions'' retErr10;
              (defaultReplicationFactor, retErr12) =
                 parseIntKafkaConfigParam d ''default_replication_factor'' retErr11;
              (messageMaxBytes, retErr13) =
                 parseIntKafkaConfigParam d ''message_max_bytes'' retErr12;
              (replicaFetchMaxBytes, retErr14) =
                 parseIntKafkaConfigParam d ''replica_fetch_max_bytes'' retErr13;
              (offsetsRetentionMinutes, retErr15) =
                 parseIntKafkaConfigParam d ''offsets_retention_minutes'' retErr14;
              autoCreateTopicsEnable =
                 (case GetOk_bool d (kafkaConfigPath @ ''.auto_create_topics_enable'') of
                    (v, ok) \<Rightarrow> if ok then Some v else None);
              sslCipherSuites =
                 (case GetOk_strs d (kafkaConfigPath @ ''.ssl_cipher_suites'') of
                    (v, ok) \<Rightarrow> if ok then Some (sort v) else None)
          in case (case GetOk_strs d (kafkaConfigPath @ ''.sasl_enabled_mechanisms'') of
                     (v, ok) \<Rightarrow> if ok then parseSaslEnabledMechanisms K v else Inr None) of
               Inl err \<Rightarrow> Inl err
             | Inr mechanisms \<Rightarrow>
                 (case retErr15 of
                    Some err \<Rightarrow> Inl err
                  | None \<Rightarrow> Inr \<lparr>
                      CompressionType = compressionType,
                      LogFlushIntervalMessages = logFlushIntervalMessages,
                      LogFlushIntervalMs = logFlushIntervalMs,
                      LogFlushSchedulerIntervalMs = logFlushSchedulerIntervalMs,
                      LogRetentionBytes = logRetentionBytes,
                      LogRetentionHours = logRetentionHours,
                      LogRetentionMinutes = logRetentionMinutes,
                      LogRetentionMs = logRetentionMs,
                      LogSegmentBytes = logSegmentBytes,
                      LogPreallocate = None,
                      SocketSendBufferBytes = socketSendBufferBytes,
                      SocketReceiveBufferBytes = socketReceiveBufferBytes,
                      AutoCreateTopicsEnable = autoCreateTopicsEnable,
                      NumPartitions = numPartitions,
                      DefaultReplicationFactor = defaultReplicationFactor,
                      MessageMaxBytes = messageMaxBytes,
                      ReplicaFetchMaxBytes = replicaFetchMaxBytes,
                      SslCipherSuites = sslCipherSuites,
                      OffsetsRetentionMinutes = offsetsRetentionMinutes,
                      SaslEnabledMechanisms = mechanisms\<rparr>)))"

text \<open>
  \<^verbatim>\<open>expandKafkaConfig2_8\<close> and \<^verbatim>\<open>expandKafkaConfig3x\<close> copy the parsed configuration
  field by field into the struct of their version.
\<close>

definition expandKafkaConfig2_8 :: "kafka_api \<Rightarrow> ResourceData \<Rightarrow> error + KafkaConfig" where
  "expandKafkaConfig2_8 K d =
     (case parseKafkaConfig K d of Inl err \<Rightarrow> Inl err | Inr kafkaConfig \<Rightarrow> Inr kafkaConfig)"

definition expandKafkaConfig3x :: "kafka_api \<Rightarrow> ResourceData \<Rightarrow> error + KafkaConfig" where
  "expandKafkaConfig3x K d =
     (case parseKafkaConfig K d of Inl err \<Rightarrow> Inl err | Inr kafkaConfig \<Rightarrow> Inr kafkaConfig)"

subsection \<open>Scalar extractors of the topic configuration\<close>

record TopicConfig =
  CleanupPolicy :: string
  CompressionType_topic :: int
  DeleteRetentionMs :: "int option"
  FileDeleteDelayMs :: "int option"
  FlushMessages :: "int option"
  FlushMs :: "int option"
  MinCompactionLagMs :: "int option"
  RetentionBytes :: "int option"
  RetentionMs :: "int option"
  MaxMessageBytes :: "int option"
  MinInsyncReplicas :: "int option"
  SegmentBytes :: "int option"
  Preallocate :: "bool option"

definition parseIntTopicConfigParam ::
  "ResourceData \<Rightarrow> string \<Rightarrow> error option \<Rightarrow> int option \<times> error option" where
  "parseIntTopicConfigParam d paramPath retErr =
     (case GetOk_string d paramPath of
        (str, ok) \<Rightarrow>
          if \<not> ok then (None, retErr)
          else if str = [] then (None, retErr)
          else (case ParseInt str of
                  Inl err \<Rightarrow> (None, if retErr \<noteq> None then Some err else retErr)
                | Inr i \<Rightarrow> (Some i, retErr)))"

definition parseKafkaTopicConfig ::
  "kafka_api \<Rightarrow> ResourceData \<Rightarrow> string \<Rightarrow> error + TopicConfig" where
  "parseKafkaTopicConfig K d topicConfigPrefix =
     (let key = (\<lambda>k. topicConfigPrefix @ k);
          cleanupPolicy = Get_string d (key ''cleanup_policy'')
      in case (if cleanupPolicy \<noteq> [] then parseKafkaTopicCleanupPolicy cleanupPolicy
               else Inr 0) of
           Inl err \<Rightarrow> Inl err
         | Inr _ \<Rightarrow>
        (let compressionType = Get_string d (key ''compression_type'')
         in case (if compressionType \<noteq> [] then parseKafkaCompression K compressionType
                  else Inr 0) of
              Inl err \<Rightarrow> Inl err
            | Inr compression \<Rightarrow>
           (let retErr0 = None;
                (deleteRetentionMs, retErr1) =
                   parseIntTopicConfigParam d (key ''delete_retention_ms'') retErr0;
                (fileDeleteDelayMs, retErr2) =
                   parseIntTopicConfigParam d (key ''file_delete_delay_ms'') retErr1;
                (flushMessages, retErr3) =
                   parseIntTopicConfigParam d (key ''flush_messages'') retErr2;
                (flushMs, retErr4) =
                   parseIntTopicConfigParam d (key ''flush_ms'') retErr3;
                (minCompactionLagMs, retErr5) =
                   parseIntTopicConfigParam d (key ''min_compaction_lag_ms'') retErr4;
                (retentionBytes, retErr6) =
                   parseIntTopicConfigParam d (key ''retention_bytes'') retErr5;
                (retentionMs, retErr7) =
                   parseIntTopicConfigParam d (key ''retention_ms'') retErr6;
                (maxMessageBytes, retErr8) =
                   parseIntTopicConfigParam d (key ''max_message_bytes'') retErr7;
                (minInsyncReplicas, retErr9) =
                   parseIntTopicConfigParam d (key ''min_insync_replicas'') retErr8;
                (segmentBytes, retErr10) =
                   parseIntTopicConfigParam d (key ''segment_bytes'') retErr9;
                preallocate =
                   (case GetOk_bool d (key ''preallocate'') of
                      (v, ok) \<Rightarrow> if ok then Some v else None)
            in case retErr10 of
                 Some err \<Rightarrow> Inl err
               | None \<Rightarrow> Inr \<lparr>
                   CleanupPolicy = cleanupPolicy,
                   CompressionType_topic = compression,
                   DeleteRetentionMs = deleteRetentionMs,
                   FileDeleteDelayMs = fileDeleteDelayMs,
                   FlushMessages = flushMessages,
                   FlushMs = flushMs,
                   MinCompactionLagMs = minCompactionLagMs,
                   RetentionBytes = retentionBytes,
                   RetentionMs = retentionMs,
                   MaxMessageBytes = maxMessageBytes,
                   MinInsyncReplicas = minInsyncReplicas,
                   SegmentBytes = segmentBytes,
                   Preallocate = preallocate\<rparr>)))"

subsection \<open>Resources, access, REST API and disk autoscaling\<close>

text \<open>
  Modelled from the spec: the helpers \<^verbatim>\<open>toBytes\<close> and \<^verbatim>\<open>toGigabytes\<close> are defined in
  another file of the package. Sizes cross the boundary in gigabyte units with the fixed
  conversion factor 1 GiB = \<open>2^30\<close> bytes.
\<close>

definition toBytes :: "int \<Rightarrow> int" where
  "toBytes gigabytesCount = gigabytesCount * 2 ^ 30"

definition toGigabytes :: "int \<Rightarrow> int" where
  "toGigabytes bytesCount = bytesCount div 2 ^ 30"

record Resources =
  ResourcePresetId :: string
  DiskSize :: int
  DiskTypeId :: string

definition expandKafkaResources :: "ResourceData \<Rightarrow> string \<Rightarrow> Resources" where
  "expandKafkaResources d rootKey =
     \<lparr>ResourcePresetId =
        (case GetOk_string d (rootKey @ ''.resource_preset_id'') of
           (v, ok) \<Rightarrow> if ok then v else []),
      DiskSize =
        (case GetOk_int d (rootKey @ ''.disk_size'') of
           (v, ok) \<Rightarrow> if ok then toBytes v else 0),
      DiskTypeId =
        (case GetOk_string d (rootKey @ ''.disk_type_id'') of
           (v, ok) \<Rightarrow> if ok then v else [])\<rparr>"

record Access =
  DataTransfer :: bool

definition expandKafkaAccess :: "ResourceData \<Rightarrow> Access option" where
  "expandKafkaAccess d =
     (if \<not> GetOkExists_block d ''config.0.access'' then None
      else Some \<lparr>DataTransfer =
        (case GetOk_bool d ''config.0.access.0.data_transfer'' of
           (v, ok) \<Rightarrow> if ok then v else False)\<rparr>)"

record RestAPIConfig =
  Enabled :: bool

definition expandKafkaRestAPI :: "ResourceData \<Rightarrow> RestAPIConfig option" where
  "expandKafkaRestAPI d =
     (if \<not> GetOkExists_block d ''config.0.rest_api'' then None
      else Some \<lparr>Enabled =
        (case GetOk_bool d ''config.0.rest_api.0.enabled'' of
           (v, ok) \<Rightarrow> if ok then v else False)\<rparr>)"

record DiskSizeAutoscaling =
  DiskSizeLimit :: int
  PlannedUsageThreshold :: int
  EmergencyUsageThreshold :: int

definition expandKafkaDiskSizeAutoscaling :: "ResourceData \<Rightarrow> DiskSizeAutoscaling option" where
  "expandKafkaDiskSizeAutoscaling d =
     (if \<not> GetOkExists_block d ''config.0.disk_size_autoscaling'' then None
      else Some
        \<lparr>DiskSizeLimit =
           (case GetOk_int d ''config.0.disk_size_autoscaling.0.disk_size_limit'' of
              (v, ok) \<Rightarrow> if ok then toBytes v else 0),
         PlannedUsageThreshold =
           (case GetOk_int d ''config.0.disk_size_autoscaling.0.planned_usage_threshold'' of
              (v, ok) \<Rightarrow> if ok then v else 0),
         EmergencyUsageThreshold =
           (case GetOk_int d ''config.0.disk_size_autoscaling.0.emergency_usage_threshold'' of
              (v, ok) \<Rightarrow> if ok then v else 0)\<rparr>)"

text \<open>
  \<^verbatim>\<open>flattenKafkaDiskSizeAutoscaling\<close> returns \<^verbatim>\<open>nil\<close> for a \<^verbatim>\<open>nil\<close> pointer and a
  one-element list holding the attribute map otherwise.
\<close>

definition flattenKafkaDiskSizeAutoscaling ::
  "DiskSizeAutoscaling option \<Rightarrow> (string \<rightharpoonup> int) list" where
  "flattenKafkaDiskSizeAutoscaling p =
     (case p of
        None \<Rightarrow> []
      | Some a \<Rightarrow>
          [Map.empty
             (''disk_size_limit'' \<mapsto> toGigabytes (DiskSizeLimit a),
              ''planned_usage_threshold'' \<mapsto> PlannedUsageThreshold a,
              ''emergency_usage_threshold'' \<mapsto> EmergencyUsageThreshold a)])"

subsection \<open>Version dispatch\<close>

text \<open>
  The protobuf oneof \<^verbatim>\<open>kafka_config\<close> of \<^verbatim>\<open>ConfigSpec_Kafka\<close> holds at most one of the
  two shapes; \<^verbatim>\<open>SetKafkaConfig_2_8\<close> and \<^verbatim>\<open>SetKafkaConfig_3\<close> store their argument in it.
\<close>

datatype KafkaConfig_oneof =
    KafkaConfig_unset
  | KafkaConfig_2_8 KafkaConfig
  | KafkaConfig_3 KafkaConfig

record ConfigSpec_Kafka =
  Resources_Kafka :: Resources
  KafkaConfig_Kafka :: KafkaConfig_oneof

record ConfigSpec =
  Version :: string
  BrokersCount :: "int option"
  AssignPublicIp :: bool
  SchemaRegistry :: bool
  ZoneId :: "string list option"
  Kafka :: ConfigSpec_Kafka
  Zookeeper :: "Resources option"
  Kraft :: "Resources option"
  Access_ConfigSpec :: "Access option"
  RestApiConfig :: "RestAPIConfig option"
  DiskSizeAutoscaling_ConfigSpec :: "DiskSizeAutoscaling option"

definition strings_HasPrefix :: "string \<Rightarrow> string \<Rightarrow> bool" where
  "strings_HasPrefix s pre = (length s \<ge> length pre \<and> take (length pre) s = pre)"

text \<open>
  The part of \<^verbatim>\<open>expandKafkaConfigSpec\<close> that follows the version dispatch: it cannot
  fail.
\<close>

definition expandKafkaConfigSpec_rest ::
  "ResourceData \<Rightarrow> ConfigSpec \<Rightarrow> KafkaConfig_oneof \<Rightarrow> ConfigSpec" where
  "expandKafkaConfigSpec_rest d result cfg =
     result
       \<lparr>Kafka := (Kafka result)\<lparr>KafkaConfig_Kafka := cfg\<rparr>,
        Zookeeper :=
          (if GetOk_block d ''config.0.zookeeper''
           then Some (expandKafkaResources d ''config.0.zookeeper.0.resources.0'')
           else None),
        Kraft :=
          (if GetOk_block d ''config.0.kraft''
           then Some (expandKafkaResources d ''config.0.kraft.0.resources.0'')
           else None),
        Access_ConfigSpec := expandKafkaAccess d,
        RestApiConfig := expandKafkaRestAPI d,
        DiskSizeAutoscaling_ConfigSpec := expandKafkaDiskSizeAutoscaling d\<rparr>"

definition expandKafkaConfigSpec :: "kafka_api \<Rightarrow> ResourceData \<Rightarrow> error + ConfigSpec" where
  "expandKafkaConfigSpec K d =
     (let result =
            \<lparr>Version =
               (case GetOk_string d ''config.0.version'' of (v, ok) \<Rightarrow> if ok then v else []),
             BrokersCount =
               (case GetOk_int d ''config.0.brokers_count'' of
                  (v, ok) \<Rightarrow> if ok then Some v else None),
             AssignPublicIp =
               (case GetOk_bool d ''config.0.assign_public_ip'' of
                  (v, ok) \<Rightarrow> if ok then v else False),
             SchemaRegistry =
               (case GetOk_bool d ''config.0.schema_registry'' of
                  (v, ok) \<Rightarrow> if ok then v else False),
             ZoneId =
               (case GetOk_strs d ''config.0.zones'' of
                  (v, ok) \<Rightarrow> if ok then Some v else None),
             Kafka =
               \<lparr>Resources_Kafka = expandKafkaResources d ''config.0.kafka.0.resources.0'',
                KafkaConfig_Kafka = KafkaConfig_unset\<rparr>,
             Zookeeper = None,
             Kraft = None,
             Access_ConfigSpec = None,
             RestApiConfig = None,
             DiskSizeAutoscaling_ConfigSpec = None\<rparr>;
          version = Version result
      in if strings_HasPrefix version ''3'' then
           (case expandKafkaConfig3x K d of
              Inl err \<Rightarrow> Inl err
            | Inr cfg \<Rightarrow> Inr (expandKafkaConfigSpec_rest d result (KafkaConfig_3 cfg)))
         else if version = ''2.8'' then
           (case expandKafkaConfig2_8 K d of
              Inl err \<Rightarrow> Inl err
            | Inr cfg \<Rightarrow> Inr (expandKafkaConfigSpec_rest d result (KafkaConfig_2_8 cfg)))
         else if version = [] then
           Inl (Errorf ''you must specify version of Kafka'')
         else
           Inl (Errorf ''this version of Kafka not supported by Terraform provider''))"

subsection \<open>Flattening the Kafka server configuration\<close>

text \<open>
  A flattened block is a map from attribute names to values. Each optional field is
  written under the guard \<^verbatim>\<open>!= nil\<close>, which the three \<open>set_..._param\<close> functions
  stand for, one per type of value; the two lines for \<^verbatim>\<open>log_preallocate\<close> are commented
  out in the source, so that field is never written.
\<close>

datatype tfvalue = VString string | VBool bool | VStrings "string list"

definition set_int_param ::
  "string \<Rightarrow> int option \<Rightarrow> (string \<rightharpoonup> tfvalue) \<Rightarrow> (string \<rightharpoonup> tfvalue)" where
  "set_int_param k w res =
     (case w of None \<Rightarrow> res | Some v \<Rightarrow> res(k \<mapsto> VString (FormatInt v)))"

definition set_bool_param ::
  "string \<Rightarrow> bool option \<Rightarrow> (string \<rightharpoonup> tfvalue) \<Rightarrow> (string \<rightharpoonup> tfvalue)" where
  "set_bool_param k w res =
     (case w of None \<Rightarrow> res | Some v \<Rightarrow> res(k \<mapsto> VBool v))"

definition set_strings_param ::
  "string \<Rightarrow> string list option \<Rightarrow> (string \<rightharpoonup> tfvalue) \<Rightarrow> (string \<rightharpoonup> tfvalue)" where
  "set_strings_param k w res =
     (case w of None \<Rightarrow> res | Some v \<Rightarrow> res(k \<mapsto> VStrings v))"

definition flattenKafkaConfigSettings ::
  "kafka_api \<Rightarrow> KafkaConfig \<Rightarrow> (string \<rightharpoonup> tfvalue)" where
  "flattenKafkaConfigSettings K kafkaConfig =
     (let res = Map.empty;
          res = (if CompressionType kafkaConfig \<noteq> 0
                 then res(''compression_type'' \<mapsto>
                        VString (enum_String (CompressionType_name K) (CompressionType kafkaConfig)))
                 else res);
          res = set_int_param ''log_flush_interval_messages'' (LogFlushIntervalMessages kafkaConfig) res;
          res = set_int_param ''log_flush_interval_ms'' (LogFlushIntervalMs kafkaConfig) res;
          res = set_int_param ''log_flush_scheduler_interval_ms'' (LogFlushSchedulerIntervalMs kafkaConfig) res;
          res = set_int_param ''log_retention_bytes'' (LogRetentionBytes kafkaConfig) res;
          res = set_int_param ''log_retention_hours'' (LogRetentionHours kafkaConfig) res;
          res = set_int_param ''log_retention_minutes'' (LogRetentionMinutes kafkaConfig) res;
          res = set_int_param ''log_retention_ms'' (LogRetentionMs kafkaConfig) res;
          res = set_int_param ''log_segment_bytes'' (LogSegmentBytes kafkaConfig) res;
          res = set_int_param ''socket_send_buffer_bytes'' (SocketSendBufferBytes kafkaConfig) res;
          res = set_int_param ''socket_receive_buffer_bytes'' (SocketReceiveBufferBytes kafkaConfig) res;
          res = set_bool_param ''auto_create_topics_enable'' (AutoCreateTopicsEnable kafkaConfig) res;
          res = set_int_param ''num_partitions'' (NumPartitions kafkaConfig) res;
          res = set_int_param ''default_replication_factor'' (DefaultReplicationFactor kafkaConfig) res;
          res = set_int_param ''message_max_bytes'' (MessageMaxBytes kafkaConfig) res;
          res = set_int_param ''replica_fetch_max_bytes'' (ReplicaFetchMaxBytes kafkaConfig) res;
          res = set_strings_param ''ssl_cipher_suites'' (SslCipherSuites kafkaConfig) res;
          res = set_int_param ''offsets_retention_minutes'' (OffsetsRetentionMinutes kafkaConfig) res;
          res = set_strings_param ''sasl_enabled_mechanisms''
                  (map_option (map (enum_String (SaslMechanism_name K)))
                     (SaslEnabledMechanisms kafkaConfig)) res
      in res)"

subsection \<open>Permissions\<close>

record Permission =
  TopicName :: string
  Role :: int
  AllowHosts :: "string list"

text \<open>
  A declarative permission block is a \<^verbatim>\<open>map[string]interface{}\<close> in which the code
  tests each of the three keys for presence. The \<^verbatim>\<open>*schema.Set\<close> of host names is
  represented by the list of its elements, and the \<^verbatim>\<open>*schema.Set\<close> of blocks handed to
  \<^verbatim>\<open>expandKafkaPermissions\<close> by the list \<^verbatim>\<open>ps.List()\<close>; what such a listing can be is
  stated by \<open>is_Set_List\<close> below.
\<close>

record permission_block =
  topic_name :: "string option"
  role :: "string option"
  allow_hosts :: "string list option"

definition parseKafkaPermissionAllowHosts :: "string list \<Rightarrow> string list" where
  "parseKafkaPermissionAllowHosts allowHosts =
     (if length allowHosts = 0 then [] else sort allowHosts)"

fun strings_Join :: "string list \<Rightarrow> string \<Rightarrow> string" where
  "strings_Join [] sep = []"
| "strings_Join [x] sep = x"
| "strings_Join (x # y # ys) sep = x @ sep @ strings_Join (y # ys) sep"

definition AllowHostsSortedToStr :: "string list \<Rightarrow> string" where
  "AllowHostsSortedToStr allowHosts =
     (if length allowHosts = 0 then [] else strings_Join (sort allowHosts) '','')"









text \<open>
  \<^verbatim>\<open>kafkaUserPermissionHash\<close> is the hash function of the set of permission blocks (it is
  the function \<^verbatim>\<open>flattenKafkaUserPermissions\<close> hands to \<^verbatim>\<open>schema.NewSet\<close>). It writes the
  attributes that are present into a buffer, each followed by a dash, and hashes the
  buffer with \<^verbatim>\<open>hashcode.String\<close>, a function of another package of the repository that
  is taken as the parameter \<open>hashcode_String\<close>.
\<close>

definition kafkaUserPermissionHash :: "(string \<Rightarrow> int) \<Rightarrow> permission_block \<Rightarrow> int" where
  "kafkaUserPermissionHash hashcode_String m =
     (let buf = [];
          buf = (case topic_name m of Some n \<Rightarrow> buf @ n @ ''-'' | None \<Rightarrow> buf);
          buf = (case role m of Some r \<Rightarrow> buf @ r @ ''-'' | None \<Rightarrow> buf);
          buf = (case allow_hosts m of
                   Some allowHosts \<Rightarrow>
                     buf @ AllowHostsSortedToStr (parseKafkaPermissionAllowHosts allowHosts) @ ''-''
                 | None \<Rightarrow> buf)
      in hashcode_String buf)"



subsection \<open>User diff\<close>

record User =
  Name_User :: string
  ClusterId :: string
  Permissions_User :: "Permission list"

record UserSpec =
  Name :: string
  Password :: string
  Permissions :: "Permission list"

text \<open>
  The two \<^verbatim>\<open>map[string]bool\<close> of \<^verbatim>\<open>kafkaUsersDiff\<close> only ever store \<^verbatim>\<open>true\<close>, so each is
  the list of its keys without duplicates. Go iterates a map in an unspecified order; the
  model iterates in insertion order, and the theorems speak of the set of the returned
  names only.
\<close>

definition map_set_true :: "string \<Rightarrow> string list \<Rightarrow> string list" where
  "map_set_true k m = (if k \<in> set m then m else m @ [k])"

definition map_delete :: "string \<Rightarrow> string list \<Rightarrow> string list" where
  "map_delete k m = removeAll k m"

definition kafkaUsersDiff :: "User list \<Rightarrow> UserSpec list \<Rightarrow> string list \<times> UserSpec list" where
  "kafkaUsersDiff currUsers targetUsers =
     (let (toDelete, m) =
            foldl (\<lambda>(toDelete, m) user.
                     (map_set_true (Name_User user) toDelete, map_set_true (Name_User user) m))
                  ([], []) currUsers;
          (toDelete, toAdd) =
            foldl (\<lambda>(toDelete, toAdd) user.
                     (map_delete (Name user) toDelete,
                      if Name user \<notin> set m then toAdd @ [user] else toAdd))
                  (toDelete, []) targetUsers;
          toDel = foldl (\<lambda>toDel u. toDel @ [u]) [] toDelete
      in (toDel, toAdd))"

subsection \<open>Maintenance window\<close>

record WeeklyMaintenanceWindow =
  Day :: int
  Hour :: int

datatype MaintenanceWindow =
    MaintenanceWindow_Anytime
  | MaintenanceWindow_WeeklyMaintenanceWindow WeeklyMaintenanceWindow

text \<open>
  The result is \<^verbatim>\<open>(nil, nil)\<close> when there is no \<^verbatim>\<open>maintenance_window\<close> block. In the
  \<^verbatim>\<open>ANYTIME\<close> branch the source tests \<^verbatim>\<open>ok && hour != ""\<close> on an integer held in an
  interface, a comparison that is always true, and \<^verbatim>\<open>ok && day != ""\<close> on a string. The
  message of the day error is written without the double quotes around the seven tokens.
\<close>

definition expandKafkaMaintenanceWindow ::
  "kafka_api \<Rightarrow> ResourceData \<Rightarrow> error + MaintenanceWindow option" where
  "expandKafkaMaintenanceWindow K d =
     (if \<not> GetOk_block d ''maintenance_window'' then Inr None
      else
        (let typeMW = fst (GetOk_string d ''maintenance_window.0.type'')
         in if typeMW = ''ANYTIME'' then
              (if snd (GetOk_int d ''maintenance_window.0.hour'') then
                 Inl (Errorf ''hour should not be set, when using ANYTIME'')
               else
                 (case GetOk_string d ''maintenance_window.0.day'' of
                    (day, ok) \<Rightarrow>
                      if ok \<and> day \<noteq> [] then
                        Inl (Errorf ''day should not be set, when using ANYTIME'')
                      else Inr (Some MaintenanceWindow_Anytime)))
            else if typeMW = ''WEEKLY'' then
              (case GetOk_int d ''maintenance_window.0.hour'' of
                 (hour, ok) \<Rightarrow>
                   if \<not> ok then
                     Inl (Errorf ''hour should be set when using WEEKLY maintenance'')
                   else
                     (let dayString = Get_string d ''maintenance_window.0.day''
                      in case WeeklyMaintenanceWindow_WeekDay_value K dayString of
                           None \<Rightarrow> Inl (Errorf ''day value should be one of (MON, TUE, WED, THU, FRI, SAT, SUN)'')
                         | Some day \<Rightarrow>
                             if day = 0 then
                               Inl (Errorf ''day value should be one of (MON, TUE, WED, THU, FRI, SAT, SUN)'')
                             else
                               Inr (Some (MaintenanceWindow_WeeklyMaintenanceWindow
                                            \<lparr>Day = day, Hour = hour\<rparr>))))
            else Inl (Errorf ''maintenance_window.0.type should be ANYTIME or WEEKLY'')))"

subsection \<open>Flattening the topic configuration\<close>

text \<open>
  \<^verbatim>\<open>flattenKafkaTopicConfig\<close> reads the getters that the interface \<^verbatim>\<open>TopicConfigSpec\<close>
  shares between the topic configurations of the two versions; the cleanup policy is not
  among them.
\<close>

definition flattenKafkaTopicConfig :: "kafka_api \<Rightarrow> TopicConfig \<Rightarrow> (string \<rightharpoonup> tfvalue)" where
  "flattenKafkaTopicConfig K topicConfig =
     (let result = Map.empty;
          result = (if CompressionType_topic topicConfig \<noteq> 0
                    then result(''compression_type'' \<mapsto>
                           VString (enum_String (CompressionType_name K)
                                      (CompressionType_topic topicConfig)))
                    else result);
          result = set_int_param ''delete_retention_ms'' (DeleteRetentionMs topicConfig) result;
          result = set_int_param ''file_delete_delay_ms'' (FileDeleteDelayMs topicConfig) result;
          result = set_int_param ''flush_messages'' (FlushMessages topicConfig) result;
          result = set_int_param ''flush_ms'' (FlushMs topicConfig) result;
          result = set_int_param ''min_compaction_lag_ms'' (MinCompactionLagMs topicConfig) result;
          result = set_int_param ''retention_bytes'' (RetentionBytes topicConfig) result;
          result = set_int_param ''retention_ms'' (RetentionMs topicConfig) result;
          result = set_int_param ''max_message_bytes'' (MaxMessageBytes topicConfig) result;
          result = set_int_param ''min_insync_replicas'' (MinInsyncReplicas topicConfig) result;
          result = set_int_param ''segment_bytes'' (SegmentBytes topicConfig) result;
          result = set_bool_param ''preallocate'' (Preallocate topicConfig) result
      in result)"

subsection \<open>The optional scalar fields, by attribute name\<close>

text \<open>
  The integer-as-string attributes of the Kafka server configuration and of the topic
  configuration, each with the struct field it is stored in. These tables pair the
  attribute names with the fields exactly as \<^term>\<open>parseKafkaConfig\<close> and
  \<^term>\<open>parseKafkaTopicConfig\<close> do; they are used to state properties of every field.
\<close>

definition kafka_config_int_params :: "(string \<times> (KafkaConfig \<Rightarrow> int option)) list" where
  "kafka_config_int_params =
     [(''log_flush_interval_messages'', LogFlushIntervalMessages),
      (''log_flush_interval_ms'', LogFlushIntervalMs),
      (''log_flush_scheduler_interval_ms'', LogFlushSchedulerIntervalMs),
      (''log_retention_bytes'', LogRetentionBytes),
      (''log_retention_hours'', LogRetentionHours),
      (''log_retention_minutes'', LogRetentionMinutes),
      (''log_retention_ms'', LogRetentionMs),
      (''log_segment_bytes'', LogSegmentBytes),
      (''socket_send_buffer_bytes'', SocketSendBufferBytes),
      (''socket_receive_buffer_bytes'', SocketReceiveBufferBytes),
      (''num_partitions'', NumPartitions),
      (''default_replication_factor'', DefaultReplicationFactor),
      (''message_max_bytes'', MessageMaxBytes),
      (''replica_fetch_max_bytes'', ReplicaFetchMaxBytes),
      (''offsets_retention_minutes'', OffsetsRetentionMinutes)]"

definition topic_config_int_params :: "(string \<times> (TopicConfig \<Rightarrow> int option)) list" where
  "topic_config_int_params =
     [(''delete_retention_ms'', DeleteRetentionMs),
      (''file_delete_delay_ms'', FileDeleteDelayMs),
      (''flush_messages'', FlushMessages),
      (''flush_ms'', FlushMs),
      (''min_compaction_lag_ms'', MinCompactionLagMs),
      (''retention_bytes'', RetentionBytes),
      (''retention_ms'', RetentionMs),
      (''max_message_bytes'', MaxMessageBytes),
      (''min_insync_replicas'', MinInsyncReplicas),
      (''segment_bytes'', SegmentBytes)]"

subsection \<open>Concrete inputs\<close>

text \<open>The Kafka configuration and the topic configuration in which no optional field is set.\<close>

definition no_kafka_config :: KafkaConfig where
  "no_kafka_config = \<lparr>CompressionType = 0,
      LogFlushIntervalMessages = None, LogFlushIntervalMs = None,
      LogFlushSchedulerIntervalMs = None, LogRetentionBytes = None,
      LogRetentionHours = None, LogRetentionMinutes = None, LogRetentionMs = None,
      LogSegmentBytes = None, LogPreallocate = None, SocketSendBufferBytes = None,
      SocketReceiveBufferBytes = None, AutoCreateTopicsEnable = None,
      NumPartitions = None, DefaultReplicationFactor = None, MessageMaxBytes = None,
      ReplicaFetchMaxBytes = None, SslCipherSuites = None,
      OffsetsRetentionMinutes = None, SaslEnabledMechanisms = None\<rparr>"

definition no_topic_config :: TopicConfig where
  "no_topic_config = \<lparr>CleanupPolicy = [], CompressionType_topic = 0,
      DeleteRetentionMs = None, FileDeleteDelayMs = None, FlushMessages = None,
      FlushMs = None, MinCompactionLagMs = None, RetentionBytes = None,
      RetentionMs = None, MaxMessageBytes = None, MinInsyncReplicas = None,
      SegmentBytes = None, Preallocate = None\<rparr>"

text \<open>A tree in which one attribute of the store of strings is set, and nothing else.\<close>

definition one_string :: "string \<Rightarrow> string \<Rightarrow> ResourceData" where
  "one_string k v = empty_data\<lparr>str_attr := [k \<mapsto> v]\<rparr>"

text \<open>
  A tree with a \<^verbatim>\<open>maintenance_window\<close> block of the given type, day and hour (an empty
  day and a zero hour are attributes that are not set).
\<close>

definition maintenance_window_data :: "string \<Rightarrow> string \<Rightarrow> int \<Rightarrow> ResourceData" where
  "maintenance_window_data t day hour = empty_data
     \<lparr>str_attr := [''maintenance_window.0.type'' \<mapsto> t, ''maintenance_window.0.day'' \<mapsto> day],
      int_attr := [''maintenance_window.0.hour'' \<mapsto> hour],
      block_attr := [''maintenance_window'' \<mapsto> 1]\<rparr>"

text \<open>A tree with a \<^verbatim>\<open>disk_size_autoscaling\<close> block of the given limit and thresholds.\<close>

definition disk_size_autoscaling_data :: "int \<Rightarrow> int \<Rightarrow> int \<Rightarrow> ResourceData" where
  "disk_size_autoscaling_data limit planned emergency = empty_data
     \<lparr>int_attr :=
        [''config.0.disk_size_autoscaling.0.disk_size_limit'' \<mapsto> limit,
         ''config.0.disk_size_autoscaling.0.planned_usage_threshold'' \<mapsto> planned,
         ''config.0.disk_size_autoscaling.0.emergency_usage_threshold'' \<mapsto> emergency],
      block_attr := [''config.0.disk_size_autoscaling'' \<mapsto> 1]\<rparr>"




text \<open>The users of the example: current A and B, desired B and C.\<close>

definition user_named :: "string \<Rightarrow> User" where
  "user_named n = \<lparr>Name_User = n, ClusterId = ''c1'', Permissions_User = []\<rparr>"

definition user_spec_named :: "string \<Rightarrow> string \<Rightarrow> UserSpec" where
  "user_spec_named n pw = \<lparr>Name = n, Password = pw, Permissions = []\<rparr>"

section \<open>Properties\<close>

subsection \<open>The conversion error of the scalar extractors\<close>

lemma parseIntKafkaConfigParam_nil_retErr:
  "snd (parseIntKafkaConfigParam d p None) = None"
  by (simp add: parseIntKafkaConfigParam_def split: prod.splits sum.splits)

lemma parseIntTopicConfigParam_nil_retErr:
  "snd (parseIntTopicConfigParam d p None) = None"
  by (simp add: parseIntTopicConfigParam_def split: prod.splits sum.splits)

text \<open>
  Since \<^verbatim>\<open>retErr\<close> starts as \<^verbatim>\<open>nil\<close> and is only overwritten when it is not \<^verbatim>\<open>nil\<close>, it
  stays \<^verbatim>\<open>nil\<close> through all the extractor calls, and each field is the extractor's result
  on its own.
\<close>

lemma parseKafkaConfig_unfold:
  "parseKafkaConfig K d =
     (case (if snd (GetOk_string d (kafkaConfigPath @ ''.compression_type''))
            then parseKafkaCompression K
                   (fst (GetOk_string d (kafkaConfigPath @ ''.compression_type'')))
            else Inr 0) of
        Inl err \<Rightarrow> Inl err
      | Inr compressionType \<Rightarrow>
          (case (if snd (GetOk_strs d (kafkaConfigPath @ ''.sasl_enabled_mechanisms''))
                 then parseSaslEnabledMechanisms K
                        (fst (GetOk_strs d (kafkaConfigPath @ ''.sasl_enabled_mechanisms'')))
                 else Inr None) of
             Inl err \<Rightarrow> Inl err
           | Inr mechanisms \<Rightarrow> Inr \<lparr>
               CompressionType = compressionType,
               LogFlushIntervalMessages =
                 fst (parseIntKafkaConfigParam d ''log_flush_interval_messages'' None),
               LogFlushIntervalMs =
                 fst (parseIntKafkaConfigParam d ''log_flush_interval_ms'' None),
               LogFlushSchedulerIntervalMs =
                 fst (parseIntKafkaConfigParam d ''log_flush_scheduler_interval_ms'' None),
               LogRetentionBytes =
                 fst (parseIntKafkaConfigParam d ''log_retention_bytes'' None),
               LogRetentionHours =
                 fst (parseIntKafkaConfigParam d ''log_retention_hours'' None),
               LogRetentionMinutes =
                 fst (parseIntKafkaConfigParam d ''log_retention_minutes'' None),
               LogRetentionMs =
                 fst (parseIntKafkaConfigParam d ''log_retention_ms'' None),
               LogSegmentBytes =
                 fst (parseIntKafkaConfigParam d ''log_segment_bytes'' None),
               LogPreallocate = None,
               SocketSendBufferBytes =
                 fst (parseIntKafkaConfigParam d ''socket_send_buffer_bytes'' None),
               SocketReceiveBufferBytes =
                 fst (parseIntKafkaConfigParam d ''socket_receive_buffer_bytes'' None),
               AutoCreateTopicsEnable =
                 (if snd (GetOk_bool d (kafkaConfigPath @ ''.auto_create_topics_enable''))
                  then Some (fst (GetOk_bool d (kafkaConfigPath @ ''.auto_create_topics_enable'')))
                  else None),
               NumPartitions =
                 fst (parseIntKafkaConfigParam d ''num_partitions'' None),
               DefaultReplicationFactor =
                 fst (parseIntKafkaConfigParam d ''default_replication_factor'' None),
               MessageMaxBytes =
                 fst (parseIntKafkaConfigParam d ''message_max_bytes'' None),
               ReplicaFetchMaxBytes =
                 fst (parseIntKafkaConfigParam d ''replica_fetch_max_bytes'' None),
               SslCipherSuites =
                 (if snd (GetOk_strs d (kafkaConfigPath @ ''.ssl_cipher_suites''))
                  then Some (sort (fst (GetOk_strs d (kafkaConfigPath @ ''.ssl_cipher_suites''))))
                  else None),
               OffsetsRetentionMinutes =
                 fst (parseIntKafkaConfigParam d ''offsets_retention_minutes'' None),
               SaslEnabledMechanisms = mechanisms\<rparr>))"
  unfolding parseKafkaConfig_def Let_def case_prod_beta
  by (simp only: parseIntKafkaConfigParam_nil_retErr option.case)

lemma parseKafkaTopicConfig_unfold:
  "parseKafkaTopicConfig K d pre =
     (case (if Get_string d (pre @ ''cleanup_policy'') \<noteq> []
            then parseKafkaTopicCleanupPolicy (Get_string d (pre @ ''cleanup_policy''))
            else Inr 0) of
        Inl err \<Rightarrow> Inl err
      | Inr _ \<Rightarrow>
          (case (if Get_string d (pre @ ''compression_type'') \<noteq> []
                 then parseKafkaCompression K (Get_string d (pre @ ''compression_type''))
                 else Inr 0) of
             Inl err \<Rightarrow> Inl err
           | Inr compression \<Rightarrow> Inr \<lparr>
               CleanupPolicy = Get_string d (pre @ ''cleanup_policy''),
               CompressionType_topic = compression,
               DeleteRetentionMs =
                 fst (parseIntTopicConfigParam d (pre @ ''delete_retention_ms'') None),
               FileDeleteDelayMs =
                 fst (parseIntTopicConfigParam d (pre @ ''file_delete_delay_ms'') None),
               FlushMessages =
                 fst (parseIntTopicConfigParam d (pre @ ''flush_messages'') None),
               FlushMs =
                 fst (parseIntTopicConfigParam d (pre @ ''flush_ms'') None),
               MinCompactionLagMs =
                 fst (parseIntTopicConfigParam d (pre @ ''min_compaction_lag_ms'') None),
               RetentionBytes =
                 fst (parseIntTopicConfigParam d (pre @ ''retention_bytes'') None),
               RetentionMs =
                 fst (parseIntTopicConfigParam d (pre @ ''retention_ms'') None),
               MaxMessageBytes =
                 fst (parseIntTopicConfigParam d (pre @ ''max_message_bytes'') None),
               MinInsyncReplicas =
                 fst (parseIntTopicConfigParam d (pre @ ''min_insync_replicas'') None),
               SegmentBytes =
                 fst (parseIntTopicConfigParam d (pre @ ''segment_bytes'') None),
               Preallocate =
                 (if snd (GetOk_bool d (pre @ ''preallocate''))
                  then Some (fst (GetOk_bool d (pre @ ''preallocate'')))
                  else None)\<rparr>))"
  unfolding parseKafkaTopicConfig_def Let_def case_prod_beta
  by (simp only: parseIntTopicConfigParam_nil_retErr option.case)

lemma ParseInt_abc: "ParseInt ''abc'' = Inl (NumErrorSyntax ''abc'')"
  by (simp add: ParseInt_def ParseUint_def is_digit_def)

lemma GetOk_string_one_string:
  "GetOk_string (one_string k v) k' = (if k' = k \<and> v \<noteq> [] then (v, True) else ([], False))"
  by (simp add: one_string_def GetOk_string_def Get_string_def empty_data_def)

lemma Get_string_one_string:
  "Get_string (one_string k v) k' = (if k' = k then v else [])"
  by (simp add: one_string_def Get_string_def empty_data_def)

lemma GetOk_other_one_string:
  "GetOk_bool (one_string k v) k' = (False, False)"
  "GetOk_strs (one_string k v) k' = ([], False)"
  "GetOk_int (one_string k v) k' = (0, False)"
  "GetOk_block (one_string k v) k' = False"
  "GetOkExists_block (one_string k v) k' = False"
  by (simp_all add: one_string_def empty_data_def GetOk_bool_def Get_bool_def GetOk_strs_def
      Get_strs_def GetOk_int_def Get_int_def GetOk_block_def GetOkExists_block_def)

lemma parseIntKafkaConfigParam_abc:
  "fst (parseIntKafkaConfigParam (one_string k ''abc'') p None) = None"
  by (simp add: parseIntKafkaConfigParam_def GetOk_string_one_string ParseInt_abc)

lemma parseIntTopicConfigParam_abc:
  "fst (parseIntTopicConfigParam (one_string k ''abc'') p None) = None"
  by (simp add: parseIntTopicConfigParam_def GetOk_string_one_string ParseInt_abc)

text \<open>
  C1. The claim: a pass of \<^verbatim>\<open>parseKafkaConfig\<close> or \<^verbatim>\<open>parseKafkaTopicConfig\<close> in which an
  integer-as-string field fails to parse returns the first conversion error. The code
  does not: at a tree whose only attribute is \<^verbatim>\<open>log_flush_interval_messages = "abc"\<close>
  (respectively \<^verbatim>\<open>delete_retention_ms = "abc"\<close>), the string is present, its conversion
  fails with a syntax error, and yet both functions return success, with the field absent.
\<close>

theorem parse_config_conversion_error_lost:
  "GetOk_string (one_string (kafkaConfigPath @ ''.log_flush_interval_messages'') ''abc'')
     (kafkaConfigPath @ ''.log_flush_interval_messages'') = (''abc'', True)
   \<and> ParseInt ''abc'' = Inl (NumErrorSyntax ''abc'')
   \<and> parseKafkaConfig kafka_tables
       (one_string (kafkaConfigPath @ ''.log_flush_interval_messages'') ''abc'')
     = Inr no_kafka_config
   \<and> parseKafkaTopicConfig kafka_tables
       (one_string ''topic.0.topic_config.0.delete_retention_ms'' ''abc'')
       ''topic.0.topic_config.0.''
     = Inr no_topic_config"
  unfolding parseKafkaConfig_unfold parseKafkaTopicConfig_unfold
    parseIntKafkaConfigParam_abc parseIntTopicConfigParam_abc
    no_kafka_config_def no_topic_config_def
  by (simp add: GetOk_string_one_string Get_string_one_string GetOk_other_one_string
      ParseInt_abc kafkaConfigPath_def)

subsection \<open>Enumeration parsers and the reserved member\<close>

text \<open>
  C2 (as amended). For every contents of the tables, the parsers of the compression type,
  of the SASL mechanism and of the topic cleanup policy reject the reserved
  \<^verbatim>\<open>..._UNSPECIFIED\<close> string of their enumeration. The parsers of the deployment
  environment and of the permission role only look the string up: they return the ordinal
  of every key of their table, and an error for every other string.
\<close>

theorem enum_parsers_unspecified:
  "parseKafkaCompression K ''COMPRESSION_TYPE_UNSPECIFIED'' =
      Inl (EnumValueError ''compression_type'' ''COMPRESSION_TYPE_UNSPECIFIED'')
   \<and> parseKafkaSaslMechanism K ''SASL_MECHANISM_UNSPECIFIED'' =
      Inl (EnumValueError ''sasl_mechanism'' ''SASL_MECHANISM_UNSPECIFIED'')
   \<and> parseKafkaTopicCleanupPolicy ''CLEANUP_POLICY_UNSPECIFIED'' =
      Inl (EnumValueError ''cleanup_policy'' ''CLEANUP_POLICY_UNSPECIFIED'')
   \<and> parseKafkaEnv K e =
      (case Cluster_Environment_value K e of
         None \<Rightarrow> Inl (EnumValueError ''environment'' e) | Some v \<Rightarrow> Inr v)
   \<and> parseKafkaPermissionRole K r =
      (case Permission_AccessRole_value K r of
         None \<Rightarrow> Inl (EnumValueError ''role'' r) | Some v \<Rightarrow> Inr v)"
  by (simp add: parseKafkaCompression_def parseKafkaSaslMechanism_def
      parseKafkaTopicCleanupPolicy_def parseKafkaEnv_def parseKafkaPermissionRole_def
      Topic_CleanupPolicy_value_def split: option.splits)

theorem enum_parsers_unspecified_witness:
  "parseKafkaCompression kafka_tables ''COMPRESSION_TYPE_UNSPECIFIED'' =
      Inl (EnumValueError ''compression_type'' ''COMPRESSION_TYPE_UNSPECIFIED'')
   \<and> parseKafkaEnv kafka_tables ''PRESTABLE'' = Inr 2
   \<and> parseKafkaPermissionRole kafka_tables ''ACCESS_ROLE_OWNER'' =
      Inl (EnumValueError ''role'' ''ACCESS_ROLE_OWNER'')"
  using enum_parsers_unspecified [of kafka_tables "''PRESTABLE''" "''ACCESS_ROLE_OWNER''"]
  by (simp add: kafka_tables_def)

text \<open>
  The claim as stated fails for two of the five parsers: with the reserved member in the
  table, as a valid wire value, the environment parser and the role parser accept it.
\<close>

theorem enum_parsers_unspecified_accepted:
  "Cluster_Environment_value kafka_tables ''ENVIRONMENT_UNSPECIFIED'' = Some 0
   \<and> parseKafkaEnv kafka_tables ''ENVIRONMENT_UNSPECIFIED'' = Inr 0
   \<and> Permission_AccessRole_value kafka_tables ''ACCESS_ROLE_UNSPECIFIED'' = Some 0
   \<and> parseKafkaPermissionRole kafka_tables ''ACCESS_ROLE_UNSPECIFIED'' = Inr 0"
  by (simp add: parseKafkaEnv_def parseKafkaPermissionRole_def kafka_tables_def)

subsection \<open>An empty string in the topic configuration\<close>

text \<open>
  C9. An integer parameter of the topic configuration that is present in the tree with the
  empty string as its value is treated as an absent one: \<^verbatim>\<open>parseIntTopicConfigParam\<close>
  returns \<^verbatim>\<open>nil\<close> and leaves the error as it was, whatever it was.
\<close>

theorem parseIntTopicConfigParam_empty_string:
  "str_attr d paramPath = Some [] \<Longrightarrow>
     parseIntTopicConfigParam d paramPath retErr = (None, retErr)
     \<and> parseIntTopicConfigParam d paramPath retErr =
         parseIntTopicConfigParam (d\<lparr>str_attr := (str_attr d)(paramPath := None)\<rparr>) paramPath retErr"
  by (simp add: parseIntTopicConfigParam_def GetOk_string_def Get_string_def)

theorem parseIntTopicConfigParam_empty_string_witness:
  "str_attr (one_string ''topic.0.topic_config.0.flush_ms'' []) ''topic.0.topic_config.0.flush_ms''
     = Some []
   \<and> parseIntTopicConfigParam (one_string ''topic.0.topic_config.0.flush_ms'' [])
       ''topic.0.topic_config.0.flush_ms'' None = (None, None)"
proof -
  have h: "str_attr (one_string ''topic.0.topic_config.0.flush_ms'' [])
             ''topic.0.topic_config.0.flush_ms'' = Some []"
    by (simp add: one_string_def)
  show ?thesis
    using h parseIntTopicConfigParam_empty_string [OF h, of None] by simp
qed


subsection \<open>Version dispatch\<close>

lemma GetOk_string_value:
  "(case GetOk_string d k of (v, ok) \<Rightarrow> if ok then v else []) = Get_string d k"
  by (simp add: GetOk_string_def)

lemma GetOk_bool_value:
  "(case GetOk_bool d k of (v, ok) \<Rightarrow> if ok then v else False) = Get_bool d k"
  by (simp add: GetOk_bool_def)

lemma expandKafkaConfigSpec_version:
  "expandKafkaConfigSpec K d =
     (if strings_HasPrefix (Get_string d ''config.0.version'') ''3'' then
        (case parseKafkaConfig K d of
           Inl err \<Rightarrow> Inl err
         | Inr cfg \<Rightarrow> Inr (expandKafkaConfigSpec_rest d
             \<lparr>Version = Get_string d ''config.0.version'',
              BrokersCount =
                (if snd (GetOk_int d ''config.0.brokers_count'')
                 then Some (fst (GetOk_int d ''config.0.brokers_count'')) else None),
              AssignPublicIp = Get_bool d ''config.0.assign_public_ip'',
              SchemaRegistry = Get_bool d ''config.0.schema_registry'',
              ZoneId =
                (if snd (GetOk_strs d ''config.0.zones'')
                 then Some (fst (GetOk_strs d ''config.0.zones'')) else None),
              Kafka =
                \<lparr>Resources_Kafka = expandKafkaResources d ''config.0.kafka.0.resources.0'',
                 KafkaConfig_Kafka = KafkaConfig_unset\<rparr>,
              Zookeeper = None, Kraft = None, Access_ConfigSpec = None,
              RestApiConfig = None, DiskSizeAutoscaling_ConfigSpec = None\<rparr>
             (KafkaConfig_3 cfg)))
      else if Get_string d ''config.0.version'' = ''2.8'' then
        (case parseKafkaConfig K d of
           Inl err \<Rightarrow> Inl err
         | Inr cfg \<Rightarrow> Inr (expandKafkaConfigSpec_rest d
             \<lparr>Version = Get_string d ''config.0.version'',
              BrokersCount =
                (if snd (GetOk_int d ''config.0.brokers_count'')
                 then Some (fst (GetOk_int d ''config.0.brokers_count'')) else None),
              AssignPublicIp = Get_bool d ''config.0.assign_public_ip'',
              SchemaRegistry = Get_bool d ''config.0.schema_registry'',
              ZoneId =
                (if snd (GetOk_strs d ''config.0.zones'')
                 then Some (fst (GetOk_strs d ''config.0.zones'')) else None),
              Kafka =
                \<lparr>Resources_Kafka = expandKafkaResources d ''config.0.kafka.0.resources.0'',
                 KafkaConfig_Kafka = KafkaConfig_unset\<rparr>,
              Zookeeper = None, Kraft = None, Access_ConfigSpec = None,
              RestApiConfig = None, DiskSizeAutoscaling_ConfigSpec = None\<rparr>
             (KafkaConfig_2_8 cfg)))
      else if Get_string d ''config.0.version'' = [] then
        Inl (Errorf ''you must specify version of Kafka'')
      else Inl (Errorf ''this version of Kafka not supported by Terraform provider''))"
  unfolding expandKafkaConfigSpec_def Let_def GetOk_string_value GetOk_bool_value
  by (simp add: expandKafkaConfig3x_def expandKafkaConfig2_8_def case_prod_beta
      split: sum.splits)

lemma KafkaConfig_Kafka_rest:
  "KafkaConfig_Kafka (Kafka (expandKafkaConfigSpec_rest d result cfg)) = cfg"
  by (simp add: expandKafkaConfigSpec_rest_def)

lemma Version_rest:
  "Version (expandKafkaConfigSpec_rest d result cfg) = Version result"
  by (simp add: expandKafkaConfigSpec_rest_def)

lemma not_HasPrefix_3 [simp]:
  "\<not> strings_HasPrefix ''2.8'' ''3''" "\<not> strings_HasPrefix [] ''3''"
  by (simp_all add: strings_HasPrefix_def)

text \<open>
  C3. With \<open>version\<close> the string at \<^verbatim>\<open>config.0.version\<close> (empty when the attribute is
  not set): for version \<^verbatim>\<open>2.8\<close> the result is the error of \<^verbatim>\<open>parseKafkaConfig\<close> if it
  fails and otherwise a \<^verbatim>\<open>ConfigSpec\<close> holding the parsed configuration in the 2.8 shape;
  for a version with prefix \<^verbatim>\<open>3\<close> likewise with the 3.x shape; for the empty version the
  result is the error "you must specify version of Kafka"; for every other version it is
  the error "this version of Kafka not supported by Terraform provider". On every success
  the oneof holds one of the two shapes (it is not unset), the 3.x shape exactly for the
  versions with prefix \<^verbatim>\<open>3\<close> and the 2.8 shape exactly for version \<^verbatim>\<open>2.8\<close>.
\<close>

theorem expandKafkaConfigSpec_dispatch:
  fixes K d
  defines "version \<equiv> Get_string d ''config.0.version''"
  shows
  "(version = ''2.8'' \<longrightarrow>
      (\<forall>err. parseKafkaConfig K d = Inl err \<longrightarrow> expandKafkaConfigSpec K d = Inl err) \<and>
      (\<forall>cfg. parseKafkaConfig K d = Inr cfg \<longrightarrow>
         (\<exists>spec. expandKafkaConfigSpec K d = Inr spec \<and> Version spec = ''2.8'' \<and>
                 KafkaConfig_Kafka (Kafka spec) = KafkaConfig_2_8 cfg)))
   \<and> (strings_HasPrefix version ''3'' \<longrightarrow>
      (\<forall>err. parseKafkaConfig K d = Inl err \<longrightarrow> expandKafkaConfigSpec K d = Inl err) \<and>
      (\<forall>cfg. parseKafkaConfig K d = Inr cfg \<longrightarrow>
         (\<exists>spec. expandKafkaConfigSpec K d = Inr spec \<and> Version spec = version \<and>
                 KafkaConfig_Kafka (Kafka spec) = KafkaConfig_3 cfg)))
   \<and> (version = [] \<longrightarrow>
      expandKafkaConfigSpec K d = Inl (Errorf ''you must specify version of Kafka''))
   \<and> (version \<noteq> ''2.8'' \<and> \<not> strings_HasPrefix version ''3'' \<and> version \<noteq> [] \<longrightarrow>
      expandKafkaConfigSpec K d =
        Inl (Errorf ''this version of Kafka not supported by Terraform provider''))
   \<and> (\<forall>spec. expandKafkaConfigSpec K d = Inr spec \<longrightarrow>
        (\<exists>cfg. parseKafkaConfig K d = Inr cfg \<and>
           ((strings_HasPrefix version ''3'' \<and>
               KafkaConfig_Kafka (Kafka spec) = KafkaConfig_3 cfg) \<or>
            (version = ''2.8'' \<and>
               KafkaConfig_Kafka (Kafka spec) = KafkaConfig_2_8 cfg))))"
  unfolding version_def
  by (auto simp add: expandKafkaConfigSpec_version KafkaConfig_Kafka_rest Version_rest
      split: sum.splits if_splits)

lemma parseKafkaConfig_one_version:
  "parseKafkaConfig K (one_string ''config.0.version'' v) = Inr no_kafka_config"
  unfolding parseKafkaConfig_unfold no_kafka_config_def
  by (simp add: GetOk_string_one_string GetOk_other_one_string parseIntKafkaConfigParam_def
      kafkaConfigPath_def)

theorem expandKafkaConfigSpec_dispatch_witness:
  "(\<exists>spec. expandKafkaConfigSpec kafka_tables (one_string ''config.0.version'' ''2.8'') = Inr spec
       \<and> KafkaConfig_Kafka (Kafka spec) = KafkaConfig_2_8 no_kafka_config)
   \<and> (\<exists>spec. expandKafkaConfigSpec kafka_tables (one_string ''config.0.version'' ''3.5'') = Inr spec
       \<and> KafkaConfig_Kafka (Kafka spec) = KafkaConfig_3 no_kafka_config)
   \<and> expandKafkaConfigSpec kafka_tables (one_string ''config.0.version'' []) =
       Inl (Errorf ''you must specify version of Kafka'')
   \<and> expandKafkaConfigSpec kafka_tables (one_string ''config.0.version'' ''1.0'') =
       Inl (Errorf ''this version of Kafka not supported by Terraform provider'')"
  using expandKafkaConfigSpec_dispatch [of "one_string ''config.0.version'' ''2.8''" kafka_tables]
    expandKafkaConfigSpec_dispatch [of "one_string ''config.0.version'' ''3.5''" kafka_tables]
    expandKafkaConfigSpec_dispatch [of "one_string ''config.0.version'' []" kafka_tables]
    expandKafkaConfigSpec_dispatch [of "one_string ''config.0.version'' ''1.0''" kafka_tables]
  by (auto simp add: Get_string_one_string parseKafkaConfig_one_version strings_HasPrefix_def)


subsection \<open>Maintenance window\<close>

lemma GetOk_maintenance_window_data:
  "GetOk_block (maintenance_window_data t day hour) ''maintenance_window''"
  "GetOk_string (maintenance_window_data t day hour) ''maintenance_window.0.type'' = (t, t \<noteq> [])"
  "GetOk_string (maintenance_window_data t day hour) ''maintenance_window.0.day'' = (day, day \<noteq> [])"
  "Get_string (maintenance_window_data t day hour) ''maintenance_window.0.day'' = day"
  "GetOk_int (maintenance_window_data t day hour) ''maintenance_window.0.hour'' = (hour, hour \<noteq> 0)"
  by (simp_all add: maintenance_window_data_def empty_data_def GetOk_block_def GetOk_string_def
      Get_string_def GetOk_int_def Get_int_def)

text \<open>
  C6. For a tree with a \<^verbatim>\<open>maintenance_window\<close> block: type \<^verbatim>\<open>ANYTIME\<close> with an hour
  set, or with no hour but a day set, is an error; type \<^verbatim>\<open>WEEKLY\<close> with day \<^verbatim>\<open>MON\<close>
  (ordinal 1 in the table) and hour 3 is the weekly window of day 1 and hour 3; type
  \<^verbatim>\<open>WEEKLY\<close> with no hour set, or with a day string (the empty string when no day is set)
  that is not in the table or has the reserved ordinal 0, is an error; every other type is
  an error.
\<close>

theorem expandKafkaMaintenanceWindow_cases:
  assumes "GetOk_block d ''maintenance_window''"
  shows
  "(fst (GetOk_string d ''maintenance_window.0.type'') = ''ANYTIME'' \<longrightarrow>
      (snd (GetOk_int d ''maintenance_window.0.hour'') \<longrightarrow>
         expandKafkaMaintenanceWindow K d =
           Inl (Errorf ''hour should not be set, when using ANYTIME'')) \<and>
      (\<not> snd (GetOk_int d ''maintenance_window.0.hour'') \<and>
       snd (GetOk_string d ''maintenance_window.0.day'') \<longrightarrow>
         expandKafkaMaintenanceWindow K d =
           Inl (Errorf ''day should not be set, when using ANYTIME'')) \<and>
      (\<not> snd (GetOk_int d ''maintenance_window.0.hour'') \<and>
       \<not> snd (GetOk_string d ''maintenance_window.0.day'') \<longrightarrow>
         expandKafkaMaintenanceWindow K d = Inr (Some MaintenanceWindow_Anytime)))
   \<and> (fst (GetOk_string d ''maintenance_window.0.type'') = ''WEEKLY'' \<longrightarrow>
      (Get_string d ''maintenance_window.0.day'' = ''MON'' \<and>
       WeeklyMaintenanceWindow_WeekDay_value K ''MON'' = Some 1 \<and>
       GetOk_int d ''maintenance_window.0.hour'' = (3, True) \<longrightarrow>
         expandKafkaMaintenanceWindow K d =
           Inr (Some (MaintenanceWindow_WeeklyMaintenanceWindow \<lparr>Day = 1, Hour = 3\<rparr>))) \<and>
      (\<not> snd (GetOk_int d ''maintenance_window.0.hour'') \<longrightarrow>
         expandKafkaMaintenanceWindow K d =
           Inl (Errorf ''hour should be set when using WEEKLY maintenance'')) \<and>
      (snd (GetOk_int d ''maintenance_window.0.hour'') \<and>
       (WeeklyMaintenanceWindow_WeekDay_value K (Get_string d ''maintenance_window.0.day'') = None \<or>
        WeeklyMaintenanceWindow_WeekDay_value K (Get_string d ''maintenance_window.0.day'') = Some 0) \<longrightarrow>
         expandKafkaMaintenanceWindow K d =
           Inl (Errorf ''day value should be one of (MON, TUE, WED, THU, FRI, SAT, SUN)'')))
   \<and> (fst (GetOk_string d ''maintenance_window.0.type'') \<noteq> ''ANYTIME'' \<and>
      fst (GetOk_string d ''maintenance_window.0.type'') \<noteq> ''WEEKLY'' \<longrightarrow>
         expandKafkaMaintenanceWindow K d =
           Inl (Errorf ''maintenance_window.0.type should be ANYTIME or WEEKLY''))"
  using assms
  by (auto simp add: expandKafkaMaintenanceWindow_def Let_def GetOk_string_def
      split: prod.splits option.splits)

theorem expandKafkaMaintenanceWindow_cases_witness:
  "GetOk_block (maintenance_window_data ''WEEKLY'' ''MON'' 3) ''maintenance_window''
   \<and> expandKafkaMaintenanceWindow kafka_tables (maintenance_window_data ''ANYTIME'' [] 3) =
       Inl (Errorf ''hour should not be set, when using ANYTIME'')
   \<and> expandKafkaMaintenanceWindow kafka_tables (maintenance_window_data ''ANYTIME'' ''MON'' 0) =
       Inl (Errorf ''day should not be set, when using ANYTIME'')
   \<and> expandKafkaMaintenanceWindow kafka_tables (maintenance_window_data ''WEEKLY'' ''MON'' 3) =
       Inr (Some (MaintenanceWindow_WeeklyMaintenanceWindow \<lparr>Day = 1, Hour = 3\<rparr>))
   \<and> expandKafkaMaintenanceWindow kafka_tables (maintenance_window_data ''WEEKLY'' [] 3) =
       Inl (Errorf ''day value should be one of (MON, TUE, WED, THU, FRI, SAT, SUN)'')
   \<and> expandKafkaMaintenanceWindow kafka_tables
        (maintenance_window_data ''WEEKLY'' ''WEEK_DAY_UNSPECIFIED'' 3) =
       Inl (Errorf ''day value should be one of (MON, TUE, WED, THU, FRI, SAT, SUN)'')
   \<and> expandKafkaMaintenanceWindow kafka_tables (maintenance_window_data ''MONTHLY'' ''MON'' 3) =
       Inl (Errorf ''maintenance_window.0.type should be ANYTIME or WEEKLY'')"
  using
    expandKafkaMaintenanceWindow_cases
      [OF GetOk_maintenance_window_data(1) [of "''ANYTIME''" "[]" 3], of kafka_tables]
    expandKafkaMaintenanceWindow_cases
      [OF GetOk_maintenance_window_data(1) [of "''ANYTIME''" "''MON''" 0], of kafka_tables]
    expandKafkaMaintenanceWindow_cases
      [OF GetOk_maintenance_window_data(1) [of "''WEEKLY''" "''MON''" 3], of kafka_tables]
    expandKafkaMaintenanceWindow_cases
      [OF GetOk_maintenance_window_data(1) [of "''WEEKLY''" "[]" 3], of kafka_tables]
    expandKafkaMaintenanceWindow_cases
      [OF GetOk_maintenance_window_data(1) [of "''WEEKLY''" "''WEEK_DAY_UNSPECIFIED''" 3],
       of kafka_tables]
    expandKafkaMaintenanceWindow_cases
      [OF GetOk_maintenance_window_data(1) [of "''MONTHLY''" "''MON''" 3], of kafka_tables]
  by (simp add: GetOk_maintenance_window_data kafka_tables_def)

subsection \<open>Disk autoscaling\<close>

lemma GetOk_disk_size_autoscaling_data:
  "GetOkExists_block (disk_size_autoscaling_data l p e) ''config.0.disk_size_autoscaling''"
  "Get_int (disk_size_autoscaling_data l p e)
     ''config.0.disk_size_autoscaling.0.disk_size_limit'' = l"
  "Get_int (disk_size_autoscaling_data l p e)
     ''config.0.disk_size_autoscaling.0.planned_usage_threshold'' = p"
  "Get_int (disk_size_autoscaling_data l p e)
     ''config.0.disk_size_autoscaling.0.emergency_usage_threshold'' = e"
  by (simp_all add: disk_size_autoscaling_data_def empty_data_def GetOkExists_block_def
      Get_int_def)

text \<open>
  C7. Flattening a \<^verbatim>\<open>DiskSizeAutoscaling\<close> with a limit of 107374182400 bytes gives
  \<^verbatim>\<open>disk_size_limit = 100\<close>. In general flattening converts the limit with
  \<^verbatim>\<open>toGigabytes\<close> and writes the two thresholds as they are, and expanding a tree that has
  the block converts the limit with \<^verbatim>\<open>toBytes\<close> and stores the two thresholds as they are
  (an attribute that is not set reads as 0 and is stored as 0).
\<close>

theorem disk_size_autoscaling_units:
  "flattenKafkaDiskSizeAutoscaling
      (Some \<lparr>DiskSizeLimit = 107374182400, PlannedUsageThreshold = p,
             EmergencyUsageThreshold = e\<rparr>) =
     [[''disk_size_limit'' \<mapsto> 100, ''planned_usage_threshold'' \<mapsto> p,
       ''emergency_usage_threshold'' \<mapsto> e]]
   \<and> flattenKafkaDiskSizeAutoscaling (Some a) =
     [[''disk_size_limit'' \<mapsto> toGigabytes (DiskSizeLimit a),
       ''planned_usage_threshold'' \<mapsto> PlannedUsageThreshold a,
       ''emergency_usage_threshold'' \<mapsto> EmergencyUsageThreshold a]]
   \<and> (GetOkExists_block d ''config.0.disk_size_autoscaling'' \<longrightarrow>
       expandKafkaDiskSizeAutoscaling d =
         Some \<lparr>DiskSizeLimit =
                 toBytes (Get_int d ''config.0.disk_size_autoscaling.0.disk_size_limit''),
               PlannedUsageThreshold =
                 Get_int d ''config.0.disk_size_autoscaling.0.planned_usage_threshold'',
               EmergencyUsageThreshold =
                 Get_int d ''config.0.disk_size_autoscaling.0.emergency_usage_threshold''\<rparr>)"
  by (simp add: flattenKafkaDiskSizeAutoscaling_def expandKafkaDiskSizeAutoscaling_def
      toGigabytes_def toBytes_def GetOk_int_def)

theorem disk_size_autoscaling_units_witness:
  "GetOkExists_block (disk_size_autoscaling_data 100 80 90) ''config.0.disk_size_autoscaling''
   \<and> expandKafkaDiskSizeAutoscaling (disk_size_autoscaling_data 100 80 90) =
       Some \<lparr>DiskSizeLimit = 107374182400, PlannedUsageThreshold = 80,
             EmergencyUsageThreshold = 90\<rparr>
   \<and> flattenKafkaDiskSizeAutoscaling
        (expandKafkaDiskSizeAutoscaling (disk_size_autoscaling_data 100 80 90)) =
       [[''disk_size_limit'' \<mapsto> 100, ''planned_usage_threshold'' \<mapsto> 80,
         ''emergency_usage_threshold'' \<mapsto> 90]]"
  using disk_size_autoscaling_units
    [of 80 90 "\<lparr>DiskSizeLimit = 107374182400, PlannedUsageThreshold = 80,
                 EmergencyUsageThreshold = 90\<rparr>"
        "disk_size_autoscaling_data 100 80 90"]
  by (simp add: GetOk_disk_size_autoscaling_data toBytes_def)


subsection \<open>User diff\<close>

lemma set_map_set_true: "set (map_set_true k m) = insert k (set m)"
  by (auto simp add: map_set_true_def)

lemma distinct_map_set_true: "distinct m \<Longrightarrow> distinct (map_set_true k m)"
  by (simp add: map_set_true_def)

lemma foldl_curr_users:
  "foldl (\<lambda>(toDelete, m) user.
            (map_set_true (Name_User user) toDelete, map_set_true (Name_User user) m))
         (a, b) currUsers =
     (foldl (\<lambda>l user. map_set_true (Name_User user) l) a currUsers,
      foldl (\<lambda>l user. map_set_true (Name_User user) l) b currUsers)"
  by (induction currUsers arbitrary: a b) simp_all

lemma set_foldl_map_set_true:
  "set (foldl (\<lambda>l user. map_set_true (Name_User user) l) a currUsers) =
     set a \<union> Name_User ` set currUsers"
  by (induction currUsers arbitrary: a) (auto simp add: set_map_set_true)

lemma distinct_foldl_map_set_true:
  "distinct a \<Longrightarrow> distinct (foldl (\<lambda>l user. map_set_true (Name_User user) l) a currUsers)"
  by (induction currUsers arbitrary: a) (simp_all add: distinct_map_set_true)

lemma foldl_target_users:
  "foldl (\<lambda>(toDelete, toAdd) user.
            (map_delete (Name user) toDelete,
             if Name user \<notin> set m then toAdd @ [user] else toAdd))
         (a, b) targetUsers =
     (foldl (\<lambda>l user. map_delete (Name user) l) a targetUsers,
      b @ filter (\<lambda>user. Name user \<notin> set m) targetUsers)"
  by (induction targetUsers arbitrary: a b) simp_all

lemma set_foldl_map_delete:
  "set (foldl (\<lambda>l user. map_delete (Name user) l) a targetUsers) =
     set a - Name ` set targetUsers"
  by (induction targetUsers arbitrary: a) (auto simp add: map_delete_def)

lemma distinct_foldl_map_delete:
  "distinct a \<Longrightarrow> distinct (foldl (\<lambda>l user. map_delete (Name user) l) a targetUsers)"
  by (induction targetUsers arbitrary: a) (simp_all add: map_delete_def distinct_removeAll)

lemma foldl_append_each: "foldl (\<lambda>toDel u. toDel @ [u]) acc l = acc @ l"
  by (induction l arbitrary: acc) simp_all

lemma kafkaUsersDiff_unfold:
  "kafkaUsersDiff currUsers targetUsers =
     (foldl (\<lambda>l user. map_delete (Name user) l)
        (foldl (\<lambda>l user. map_set_true (Name_User user) l) [] currUsers) targetUsers,
      filter (\<lambda>user. Name user \<notin> Name_User ` set currUsers) targetUsers)"
  by (simp add: kafkaUsersDiff_def foldl_curr_users foldl_target_users foldl_append_each
      set_foldl_map_set_true)

text \<open>
  C5. Users are matched by name only: the returned names to delete are, without
  repetition, exactly the names of the current users that no desired user has, and the
  returned entries to add are exactly the desired entries, whole and in their order, whose
  name no current user has.
\<close>

theorem kafkaUsersDiff_by_name:
  "set (fst (kafkaUsersDiff currUsers targetUsers)) =
     Name_User ` set currUsers - Name ` set targetUsers
   \<and> distinct (fst (kafkaUsersDiff currUsers targetUsers))
   \<and> snd (kafkaUsersDiff currUsers targetUsers) =
     filter (\<lambda>user. Name user \<notin> Name_User ` set currUsers) targetUsers"
  by (simp add: kafkaUsersDiff_unfold set_foldl_map_delete set_foldl_map_set_true
      distinct_foldl_map_delete distinct_foldl_map_set_true)

theorem kafkaUsersDiff_by_name_witness:
  "set (fst (kafkaUsersDiff [user_named ''A'', user_named ''B'']
          [user_spec_named ''B'' ''pb'', user_spec_named ''C'' ''pc''])) = {''A''}
   \<and> snd (kafkaUsersDiff [user_named ''A'', user_named ''B'']
          [user_spec_named ''B'' ''pb'', user_spec_named ''C'' ''pc'']) =
       [user_spec_named ''C'' ''pc'']"
  using kafkaUsersDiff_by_name [of "[user_named ''A'', user_named ''B'']"
      "[user_spec_named ''B'' ''pb'', user_spec_named ''C'' ''pc'']"]
  by (auto simp add: user_named_def user_spec_named_def)

text \<open>
  C10. The two results of \<^verbatim>\<open>kafkaUsersDiff\<close> are disjoint by name: no returned name to
  delete is the name of a returned entry to add. Every returned name is the name of a
  current user, and every returned entry is one of the desired entries.
\<close>

theorem kafkaUsersDiff_disjoint:
  "set (fst (kafkaUsersDiff currUsers targetUsers))
     \<inter> Name ` set (snd (kafkaUsersDiff currUsers targetUsers)) = {}
   \<and> set (fst (kafkaUsersDiff currUsers targetUsers)) \<subseteq> Name_User ` set currUsers
   \<and> set (snd (kafkaUsersDiff currUsers targetUsers)) \<subseteq> set targetUsers"
  by (auto simp add: kafkaUsersDiff_unfold set_foldl_map_delete set_foldl_map_set_true)

theorem kafkaUsersDiff_disjoint_witness:
  "set (fst (kafkaUsersDiff [user_named ''A'', user_named ''B'']
          [user_spec_named ''B'' ''pb'', user_spec_named ''C'' ''pc'']))
     \<inter> Name ` set (snd (kafkaUsersDiff [user_named ''A'', user_named ''B'']
          [user_spec_named ''B'' ''pb'', user_spec_named ''C'' ''pc''])) = {}
   \<and> fst (kafkaUsersDiff [user_named ''A'', user_named ''B'']
          [user_spec_named ''B'' ''pb'', user_spec_named ''C'' ''pc'']) = [''A'']"
  using kafkaUsersDiff_disjoint [of "[user_named ''A'', user_named ''B'']"
      "[user_spec_named ''B'' ''pb'', user_spec_named ''C'' ''pc'']"]
  by (simp add: kafkaUsersDiff_unfold user_named_def user_spec_named_def map_set_true_def
      map_delete_def)


subsection \<open>Optional scalar fields\<close>

lemma set_int_param_apply:
  "set_int_param k w res k' =
     (if k' = k then (case w of None \<Rightarrow> res k' | Some v \<Rightarrow> Some (VString (FormatInt v)))
      else res k')"
  by (simp add: set_int_param_def split: option.splits)

lemma set_bool_param_apply:
  "set_bool_param k w res k' =
     (if k' = k then (case w of None \<Rightarrow> res k' | Some v \<Rightarrow> Some (VBool v)) else res k')"
  by (simp add: set_bool_param_def split: option.splits)

lemma set_strings_param_apply:
  "set_strings_param k w res k' =
     (if k' = k then (case w of None \<Rightarrow> res k' | Some v \<Rightarrow> Some (VStrings v)) else res k')"
  by (simp add: set_strings_param_def split: option.splits)

lemma if_update_apply:
  "(if b then res(k \<mapsto> v) else res) k' =
     (if k' = k then (if b then Some v else res k') else res k')"
  by simp

lemmas flatten_apply =
  set_int_param_apply set_bool_param_apply set_strings_param_apply if_update_apply
  map_option_case

lemma flattenKafkaConfigSettings_int_params_all:
  "list_all (\<lambda>(k, field).
      flattenKafkaConfigSettings K c k = map_option (\<lambda>v. VString (FormatInt v)) (field c))
     kafka_config_int_params"
  unfolding kafka_config_int_params_def flattenKafkaConfigSettings_def Let_def
  by (simp add: flatten_apply cong: option.case_cong)

lemma flattenKafkaConfigSettings_int_params:
  "(k, field) \<in> set kafka_config_int_params \<Longrightarrow>
     flattenKafkaConfigSettings K c k = map_option (\<lambda>v. VString (FormatInt v)) (field c)"
  using flattenKafkaConfigSettings_int_params_all [of K c]
  by (auto simp add: list_all_iff)

lemma flattenKafkaConfigSettings_bool_params:
  "flattenKafkaConfigSettings K c ''auto_create_topics_enable'' =
     map_option VBool (AutoCreateTopicsEnable c)"
  "flattenKafkaConfigSettings K c ''log_preallocate'' = None"
  unfolding flattenKafkaConfigSettings_def Let_def
  by (simp_all add: flatten_apply cong: option.case_cong)

lemma flattenKafkaTopicConfig_int_params_all:
  "list_all (\<lambda>(k, field).
      flattenKafkaTopicConfig K t k = map_option (\<lambda>v. VString (FormatInt v)) (field t))
     topic_config_int_params"
  unfolding topic_config_int_params_def flattenKafkaTopicConfig_def Let_def
  by (simp add: flatten_apply cong: option.case_cong)

lemma flattenKafkaTopicConfig_int_params:
  "(k, field) \<in> set topic_config_int_params \<Longrightarrow>
     flattenKafkaTopicConfig K t k = map_option (\<lambda>v. VString (FormatInt v)) (field t)"
  using flattenKafkaTopicConfig_int_params_all [of K t]
  by (auto simp add: list_all_iff)

lemma flattenKafkaTopicConfig_preallocate:
  "flattenKafkaTopicConfig K t ''preallocate'' = map_option VBool (Preallocate t)"
  unfolding flattenKafkaTopicConfig_def Let_def
  by (simp add: flatten_apply cong: option.case_cong)

lemma parseIntKafkaConfigParam_absent:
  "\<not> snd (GetOk_string d (kafkaConfigPath @ ''.'' @ k)) \<Longrightarrow>
     parseIntKafkaConfigParam d k retErr = (None, retErr)"
  by (cases "GetOk_string d (kafkaConfigPath @ ''.'' @ k)")
     (simp add: parseIntKafkaConfigParam_def)

lemma parseIntTopicConfigParam_absent:
  "\<not> snd (GetOk_string d p) \<Longrightarrow> parseIntTopicConfigParam d p retErr = (None, retErr)"
  by (cases "GetOk_string d p") (simp add: parseIntTopicConfigParam_def)

lemma parseKafkaConfig_int_params_all:
  "parseKafkaConfig K d = Inr c \<Longrightarrow>
     list_all (\<lambda>(k, field). field c = fst (parseIntKafkaConfigParam d k None))
       kafka_config_int_params
     \<and> LogPreallocate c = None
     \<and> AutoCreateTopicsEnable c =
       (if snd (GetOk_bool d (kafkaConfigPath @ ''.auto_create_topics_enable''))
        then Some (fst (GetOk_bool d (kafkaConfigPath @ ''.auto_create_topics_enable'')))
        else None)"
  unfolding parseKafkaConfig_unfold kafka_config_int_params_def
  by (auto split: sum.splits)

lemma parseKafkaConfig_int_params:
  "(k, field) \<in> set kafka_config_int_params \<Longrightarrow> parseKafkaConfig K d = Inr c \<Longrightarrow>
     field c = fst (parseIntKafkaConfigParam d k None)"
  using parseKafkaConfig_int_params_all [of K d c]
  by (auto simp add: list_all_iff)

lemma parseKafkaTopicConfig_int_params_all:
  "parseKafkaTopicConfig K d pre = Inr t \<Longrightarrow>
     list_all (\<lambda>(k, field). field t = fst (parseIntTopicConfigParam d (pre @ k) None))
       topic_config_int_params
     \<and> Preallocate t =
       (if snd (GetOk_bool d (pre @ ''preallocate''))
        then Some (fst (GetOk_bool d (pre @ ''preallocate''))) else None)"
  unfolding parseKafkaTopicConfig_unfold topic_config_int_params_def
  by (auto split: sum.splits)

lemma parseKafkaTopicConfig_int_params:
  "(k, field) \<in> set topic_config_int_params \<Longrightarrow> parseKafkaTopicConfig K d pre = Inr t \<Longrightarrow>
     field t = fst (parseIntTopicConfigParam d (pre @ k) None)"
  using parseKafkaTopicConfig_int_params_all [of K d pre t]
  by (auto simp add: list_all_iff)

text \<open>
  C8 (as amended). For each integer-as-string attribute of the Kafka server configuration,
  for \<^verbatim>\<open>auto_create_topics_enable\<close>, for each integer-as-string attribute of the topic
  configuration and for \<^verbatim>\<open>preallocate\<close>: when the attribute is not set in the tree, every
  successful expansion leaves the field's wrapper absent; and flattening writes the
  attribute exactly when the wrapper is present, with the wrapped value (a wrapped zero
  included), and omits it when the wrapper is absent. The wrapper \<^verbatim>\<open>LogPreallocate\<close> is
  outside this: expansion never sets it and flattening never writes \<^verbatim>\<open>log_preallocate\<close>.
\<close>

theorem optional_scalar_fields:
  "(\<forall>(k, field) \<in> set kafka_config_int_params.
      (\<not> snd (GetOk_string d (kafkaConfigPath @ ''.'' @ k)) \<longrightarrow>
         (\<forall>c'. parseKafkaConfig K d = Inr c' \<longrightarrow> field c' = None))
      \<and> flattenKafkaConfigSettings K c k =
          map_option (\<lambda>v. VString (FormatInt v)) (field c))
   \<and> (\<not> snd (GetOk_bool d (kafkaConfigPath @ ''.auto_create_topics_enable'')) \<longrightarrow>
         (\<forall>c'. parseKafkaConfig K d = Inr c' \<longrightarrow> AutoCreateTopicsEnable c' = None))
   \<and> flattenKafkaConfigSettings K c ''auto_create_topics_enable'' =
         map_option VBool (AutoCreateTopicsEnable c)
   \<and> (\<forall>(k, field) \<in> set topic_config_int_params.
      (\<not> snd (GetOk_string d (pre @ k)) \<longrightarrow>
         (\<forall>t'. parseKafkaTopicConfig K d pre = Inr t' \<longrightarrow> field t' = None))
      \<and> flattenKafkaTopicConfig K t k =
          map_option (\<lambda>v. VString (FormatInt v)) (field t))
   \<and> (\<not> snd (GetOk_bool d (pre @ ''preallocate'')) \<longrightarrow>
         (\<forall>t'. parseKafkaTopicConfig K d pre = Inr t' \<longrightarrow> Preallocate t' = None))
   \<and> flattenKafkaTopicConfig K t ''preallocate'' = map_option VBool (Preallocate t)
   \<and> (\<forall>c'. parseKafkaConfig K d = Inr c' \<longrightarrow> LogPreallocate c' = None)
   \<and> flattenKafkaConfigSettings K c ''log_preallocate'' = None"
proof -
  have kafka_int: "\<forall>(k, field) \<in> set kafka_config_int_params.
      (\<not> snd (GetOk_string d (kafkaConfigPath @ ''.'' @ k)) \<longrightarrow>
         (\<forall>c'. parseKafkaConfig K d = Inr c' \<longrightarrow> field c' = None))
      \<and> flattenKafkaConfigSettings K c k =
          map_option (\<lambda>v. VString (FormatInt v)) (field c)"
    using parseKafkaConfig_int_params [of _ _ K d] parseIntKafkaConfigParam_absent [of d _ None]
      flattenKafkaConfigSettings_int_params [of _ _ K c]
    by fastforce
  have topic_int: "\<forall>(k, field) \<in> set topic_config_int_params.
      (\<not> snd (GetOk_string d (pre @ k)) \<longrightarrow>
         (\<forall>t'. parseKafkaTopicConfig K d pre = Inr t' \<longrightarrow> field t' = None))
      \<and> flattenKafkaTopicConfig K t k =
          map_option (\<lambda>v. VString (FormatInt v)) (field t)"
    using parseKafkaTopicConfig_int_params [of _ _ K d pre]
      parseIntTopicConfigParam_absent [of d _ None]
      flattenKafkaTopicConfig_int_params [of _ _ K t]
    by fastforce
  have kafka_bool: "\<not> snd (GetOk_bool d (kafkaConfigPath @ ''.auto_create_topics_enable'')) \<longrightarrow>
         (\<forall>c'. parseKafkaConfig K d = Inr c' \<longrightarrow> AutoCreateTopicsEnable c' = None)"
    using parseKafkaConfig_int_params_all [of K d] by simp
  have topic_bool: "\<not> snd (GetOk_bool d (pre @ ''preallocate'')) \<longrightarrow>
         (\<forall>t'. parseKafkaTopicConfig K d pre = Inr t' \<longrightarrow> Preallocate t' = None)"
    using parseKafkaTopicConfig_int_params_all [of K d pre] by simp
  have prealloc: "\<forall>c'. parseKafkaConfig K d = Inr c' \<longrightarrow> LogPreallocate c' = None"
    using parseKafkaConfig_int_params_all [of K d] by simp
  show ?thesis
    using kafka_int topic_int kafka_bool topic_bool prealloc
      flattenKafkaConfigSettings_bool_params [of K c] flattenKafkaTopicConfig_preallocate [of K t]
    by blast
qed

lemma FormatInt_0: "FormatInt 0 = ''0''"
  by code_simp

theorem optional_scalar_fields_witness:
  "(''num_partitions'', NumPartitions) \<in> set kafka_config_int_params
   \<and> \<not> snd (GetOk_string (one_string ''config.0.version'' ''2.8'')
              (kafkaConfigPath @ ''.num_partitions''))
   \<and> parseKafkaConfig kafka_tables (one_string ''config.0.version'' ''2.8'') =
       Inr no_kafka_config
   \<and> NumPartitions no_kafka_config = None
   \<and> flattenKafkaConfigSettings kafka_tables (no_kafka_config\<lparr>NumPartitions := Some 0\<rparr>)
       ''num_partitions'' = Some (VString ''0'')
   \<and> flattenKafkaConfigSettings kafka_tables (no_kafka_config\<lparr>NumPartitions := Some 0\<rparr>)
       ''log_flush_interval_ms'' = None"
  using optional_scalar_fields [of "one_string ''config.0.version'' ''2.8''" kafka_tables
      "no_kafka_config\<lparr>NumPartitions := Some 0\<rparr>" "''topic.0.topic_config.0.''"
      no_topic_config]
  by (simp add: kafka_config_int_params_def topic_config_int_params_def
      parseKafkaConfig_one_version GetOk_string_one_string kafkaConfigPath_def
      no_kafka_config_def FormatInt_0)

text \<open>
  The claim as stated fails for the optional scalar field \<^verbatim>\<open>LogPreallocate\<close>: a
  configuration in which that wrapper is present, and nothing else is set, flattens to the
  empty map, without the key \<^verbatim>\<open>log_preallocate\<close>.
\<close>

theorem log_preallocate_not_flattened:
  "LogPreallocate (no_kafka_config\<lparr>LogPreallocate := Some True\<rparr>) = Some True
   \<and> flattenKafkaConfigSettings kafka_tables (no_kafka_config\<lparr>LogPreallocate := Some True\<rparr>)
       ''log_preallocate'' = None
   \<and> flattenKafkaConfigSettings kafka_tables (no_kafka_config\<lparr>LogPreallocate := Some True\<rparr>)
       = Map.empty"
  by (simp add: flattenKafkaConfigSettings_def no_kafka_config_def set_int_param_def
      set_bool_param_def set_strings_param_def)


subsection \<open>Permission expansion\<close>




















text \<open>
  Blocks whose host sets differ but join to the same string, such as \<open>{a,b}\<close> (one host
  with a comma in it) and \<open>{a, b}\<close> (two hosts) on the same topic and role, have the same
  hash code for every hash function on strings: a set keyed by
  \<^verbatim>\<open>kafkaUserPermissionHash\<close> holds at most one of them.
\<close>

lemma joined_hosts_collide:
  "kafkaUserPermissionHash H
      \<lparr>topic_name = Some t, role = Some r, allow_hosts = Some [''a,b'']\<rparr> =
   kafkaUserPermissionHash H
      \<lparr>topic_name = Some t, role = Some r, allow_hosts = Some [''a'', ''b'']\<rparr>"
  by (simp add: kafkaUserPermissionHash_def parseKafkaPermissionAllowHosts_def
      AllowHostsSortedToStr_def)


end
